theory Spec2Isabelle
  imports Main
begin

section \<open>The pandas-style merge function of pylegend\<close>

text \<open>
  This theory embeds \<^verbatim>\<open>PandasApiMergeFunction\<close>
  (\<^verbatim>\<open>pylegend/core/tds/pandas_api/frames/functions/merge.py\<close>): key resolution,
  join-kind resolution, the join condition, the columns after the merge, the relational
  plan of \<^verbatim>\<open>to_sql\<close> and the program text of \<^verbatim>\<open>to_pure\<close>.
  Every \<^verbatim>\<open>raise\<close> of the source is a value \<open>Inl e\<close> of the result type.
\<close>

subsection \<open>Data model\<close>

text \<open>A \<^verbatim>\<open>TdsColumn\<close>: a name and a type.\<close>

record tds_column =
  col_name :: string
  col_type :: string

datatype JoinType = INNER | LEFT | RIGHT | FULL

text \<open>
  The part of the SQL metamodel that \<^verbatim>\<open>to_sql\<close> builds. Relations that the merge
  function never builds itself (tables and the like, inside the frames' own queries) are
  kept opaque in \<open>OtherRelation\<close>; \<open>'e\<close> is the type of SQL expressions, which are produced
  by the expression language and are opaque here as well.
\<close>

datatype qualified_name = QualifiedName (parts: "string list")

datatype name_reference = QualifiedNameReference qualified_name

datatype select_item = SingleColumn (item_alias: string) (item_expression: name_reference)

record select =
  selectItems :: "select_item list"
  distinct_flag :: bool

datatype 'e join_criteria = JoinOn 'e

datatype ('r, 'e) relation =
    OtherRelation 'r
  | TableSubquery "('r, 'e) query"
  | AliasedRelation (aliased: "('r, 'e) relation") (relation_alias: string)
      (columnNames: "string list")
  | Join JoinType "('r, 'e) relation" "('r, 'e) relation" "'e join_criteria"
and ('r, 'e) query =
    Query (queryBody: "('r, 'e) query_specification") (query_limit: "'e option")
      (query_offset: "'e option") (query_orderBy: "'e list")
and ('r, 'e) query_specification =
    QuerySpecification (qs_select: select) (qs_from: "('r, 'e) relation list")
      (qs_where: "'e option") (qs_groupBy: "'e list") (qs_having: "'e option")
      (qs_orderBy: "'e list") (qs_limit: "'e option") (qs_offset: "'e option")

text \<open>
  A frame, as far as the merge function reads it: its identity as a Python object
  (\<open>frame_id\<close>, what \<^verbatim>\<open>is\<close> compares), its columns, its compiled query
  object and its program text, which depends on the rendering configuration \<open>'c\<close>.
\<close>

record ('r, 'e, 'c) frame =
  frame_id :: nat
  columns :: "tds_column list"
  to_sql_query_object :: "('r, 'e) query_specification"
  frame_to_pure :: "'c \<Rightarrow> string"

text \<open>A key argument is a bare name or a list of names (\<^verbatim>\<open>Union[str, List[str]]\<close>).\<close>

datatype keys = Name string | Names "string list"

text \<open>
  The attributes of a \<^verbatim>\<open>PandasApiMergeFunction\<close>. \<open>how\<close> is a string and
  \<open>suffixes\<close> a pair of strings: \<^verbatim>\<open>None\<close> for either is outside this model.
\<close>

record ('r, 'e, 'c) merge_function =
  base_frame :: "('r, 'e, 'c) frame"
  other_frame :: "('r, 'e, 'c) frame"
  on :: "keys option"
  left_on :: "keys option"
  right_on :: "keys option"
  how :: string
  suffixes :: "string \<times> string"

text \<open>
  The errors of the source, one constructor for each message. All of them are
  \<^verbatim>\<open>ValueError\<close> in the source, except \<open>NoneCondition\<close>, which stands for
  using the \<^verbatim>\<open>None\<close> that \<^verbatim>\<open>__build_condition\<close> would return had
  its loop not run.
\<close>

datatype error =
    ConflictingKeys
  | MergeKeyNotInBothFrames string
  | KeyLengthMismatch
  | LeftKeyNotFound string
  | RightKeyNotFound string
  | UnsupportedHow string
  | DuplicateColumns
  | NoneCondition
  | AbstractColumnClass
  | UnsupportedColumnType string string
  | ColumnNotInRow string

text \<open>
  \<^verbatim>\<open>__init__\<close>: the only check is that the other frame is a frame, which the type
  of \<open>other\<close> already says; the attributes are stored as given.
\<close>

definition init ::
  "('r, 'e, 'c) frame \<Rightarrow> ('r, 'e, 'c) frame \<Rightarrow> keys option \<Rightarrow> keys option \<Rightarrow> keys option
    \<Rightarrow> string \<Rightarrow> string \<times> string \<Rightarrow> error + ('r, 'e, 'c) merge_function" where
  "init base other on_arg left_on_arg right_on_arg how_arg suffixes_arg =
     Inr \<lparr>base_frame = base, other_frame = other, on = on_arg, left_on = left_on_arg,
          right_on = right_on_arg, how = how_arg, suffixes = suffixes_arg\<rparr>"

subsection \<open>Key resolution\<close>

fun normalize_keys :: "keys option \<Rightarrow> string list" where
  "normalize_keys None = []"
| "normalize_keys (Some (Name s)) = [s]"
| "normalize_keys (Some (Names ks)) = ks"

text \<open>\<^verbatim>\<open>x is not None\<close>, \<^verbatim>\<open>k not in cols\<close> and the truth value of a list.\<close>

fun is_not_None :: "'a option \<Rightarrow> bool" where
  "is_not_None None = False"
| "is_not_None (Some _) = True"

definition not_in :: "'a \<Rightarrow> 'a list \<Rightarrow> bool" where
  "not_in k xs = (k \<notin> set xs)"

fun truthy :: "'a list \<Rightarrow> bool" where
  "truthy [] = False"
| "truthy (_ # _) = True"

text \<open>The three validation loops: each raises at the first key that is missing.\<close>

fun check_on_keys :: "string list \<Rightarrow> string list \<Rightarrow> string list \<Rightarrow> error option" where
  "check_on_keys left_cols right_cols [] = None"
| "check_on_keys left_cols right_cols (k # ks) =
     (if not_in k left_cols \<or> not_in k right_cols then Some (MergeKeyNotInBothFrames k)
      else check_on_keys left_cols right_cols ks)"

fun check_left_keys :: "string list \<Rightarrow> string list \<Rightarrow> error option" where
  "check_left_keys left_cols [] = None"
| "check_left_keys left_cols (lk # ks) =
     (if not_in lk left_cols then Some (LeftKeyNotFound lk) else check_left_keys left_cols ks)"

fun check_right_keys :: "string list \<Rightarrow> string list \<Rightarrow> error option" where
  "check_right_keys right_cols [] = None"
| "check_right_keys right_cols (rk # ks) =
     (if not_in rk right_cols then Some (RightKeyNotFound rk)
      else check_right_keys right_cols ks)"

text \<open>
  \<^verbatim>\<open>list(set(left_cols) & set(right_cols))\<close>: the common names, each once, in the
  iteration order of a Python set. That order is not fixed by the program; it is the
  parameter \<open>rank\<close> here: the names come out by increasing rank, and every order of
  the common names is the order of some rank.
\<close>

definition inferred_keys :: "(string \<Rightarrow> nat) \<Rightarrow> string list \<Rightarrow> string list \<Rightarrow> string list" where
  "inferred_keys rank left_cols right_cols =
     sort_key rank (remdups (filter (\<lambda>k. k \<in> set right_cols) left_cols))"

definition derive_key_pairs ::
  "(string \<Rightarrow> nat) \<Rightarrow> ('r, 'e, 'c) merge_function \<Rightarrow> error + (string \<times> string) list" where
  "derive_key_pairs rank m =
     (let left_cols = map col_name (columns (base_frame m));
          right_cols = map col_name (columns (other_frame m))
      in if is_not_None (on m) \<and> (is_not_None (left_on m) \<or> is_not_None (right_on m))
         then Inl ConflictingKeys
         else if is_not_None (on m) then
           (let on_keys = normalize_keys (on m)
            in case check_on_keys left_cols right_cols on_keys of
                 Some e \<Rightarrow> Inl e
               | None \<Rightarrow> Inr (map (\<lambda>k. (k, k)) on_keys))
         else
           (let left_keys = normalize_keys (left_on m);
                right_keys = normalize_keys (right_on m)
            in if truthy left_keys \<or> truthy right_keys then
                 (if length left_keys \<noteq> length right_keys then Inl KeyLengthMismatch
                  else case check_left_keys left_cols left_keys of
                         Some e \<Rightarrow> Inl e
                       | None \<Rightarrow>
                           (case check_right_keys right_cols right_keys of
                              Some e \<Rightarrow> Inl e
                            | None \<Rightarrow> Inr (zip left_keys right_keys)))
               else Inr (map (\<lambda>k. (k, k)) (inferred_keys rank left_cols right_cols))))"

subsection \<open>Join-kind resolution\<close>

text \<open>
  \<^verbatim>\<open>str.lower\<close> on the letters that matter here: \<open>A\<close> to \<open>Z\<close> become
  \<open>a\<close> to \<open>z\<close>, every other character of the 8-bit \<^typ>\<open>char\<close> is kept.
\<close>

definition lower_char :: "char \<Rightarrow> char" where
  "lower_char c =
     (if 65 \<le> (of_char c :: nat) \<and> (of_char c :: nat) \<le> 90
      then char_of ((of_char c :: nat) + 32) else c)"

definition lower :: "string \<Rightarrow> string" where
  "lower s = map lower_char s"

definition join_type :: "('r, 'e, 'c) merge_function \<Rightarrow> error + JoinType" where
  "join_type m =
     (let how_lower = lower (how m)
      in if how_lower = ''inner'' then Inr INNER
         else if how_lower \<in> set [''left'', ''left_outer''] then Inr LEFT
         else if how_lower \<in> set [''right'', ''right_outer''] then Inr RIGHT
         else if how_lower \<in> set [''outer'', ''full'', ''full_outer''] then Inr FULL
         else Inl (UnsupportedHow (how m)))"

text \<open>The eight spellings that the specification lists, with the kind of each.\<close>

definition recognized_spellings :: "(string \<times> JoinType) list" where
  "recognized_spellings =
     [(''inner'', INNER), (''left'', LEFT), (''left_outer'', LEFT), (''right'', RIGHT),
      (''right_outer'', RIGHT), (''outer'', FULL), (''full'', FULL), (''full_outer'', FULL)]"

subsection \<open>The join condition\<close>

text \<open>
  The expressions that \<^verbatim>\<open>__build_condition\<close> builds: the literal, a column of a
  named row (\<^verbatim>\<open>left_row[l]\<close>), \<^verbatim>\<open>==\<close> and \<^verbatim>\<open>&\<close>.
\<close>

datatype condition =
    BooleanLiteral bool
  | RowColumn string string
  | Equals condition condition
  | And condition condition

text \<open>
  \<^verbatim>\<open>row[name]\<close>, of the row class of the library, which is outside the files
  verified here: the row is made from a name and the columns of a frame, and the access
  gives the expression for the column of that name, or raises when the column has a type
  for which the library has no expression. Which types those are is the parameter
  \<open>supported\<close>.
\<close>

definition row_getitem ::
  "(string \<Rightarrow> bool) \<Rightarrow> string \<Rightarrow> tds_column list \<Rightarrow> string \<Rightarrow> error + condition" where
  "row_getitem supported row cols name =
     (case find (\<lambda>c. col_name c = name) cols of
        None \<Rightarrow> Inl (ColumnNotInRow name)
      | Some c \<Rightarrow>
          if supported (col_type c) then Inr (RowColumn row name)
          else Inl (UnsupportedColumnType name (col_type c)))"

text \<open>The loop over the key pairs, with \<open>expr\<close> starting as \<^verbatim>\<open>None\<close>.\<close>

fun condition_loop ::
  "(string \<Rightarrow> bool) \<Rightarrow> tds_column list \<Rightarrow> tds_column list \<Rightarrow> condition option
    \<Rightarrow> (string \<times> string) list \<Rightarrow> error + condition option" where
  "condition_loop supported left_cols right_cols expr [] = Inr expr"
| "condition_loop supported left_cols right_cols expr ((l, r) # key_pairs) =
     (case row_getitem supported ''left'' left_cols l of
        Inl e \<Rightarrow> Inl e
      | Inr left_item \<Rightarrow>
          (case row_getitem supported ''right'' right_cols r of
             Inl e \<Rightarrow> Inl e
           | Inr right_item \<Rightarrow>
               (let part = Equals left_item right_item
                in condition_loop supported left_cols right_cols
                     (Some (case expr of None \<Rightarrow> part | Some e \<Rightarrow> And e part)) key_pairs)))"

definition build_condition ::
  "(string \<Rightarrow> bool) \<Rightarrow> (string \<Rightarrow> nat) \<Rightarrow> ('r, 'e, 'c) merge_function
    \<Rightarrow> error + condition" where
  "build_condition supported rank m =
     (case derive_key_pairs rank m of
        Inl e \<Rightarrow> Inl e
      | Inr key_pairs \<Rightarrow>
          if truthy key_pairs then
            (case condition_loop supported (columns (base_frame m)) (columns (other_frame m))
                    None key_pairs of
               Inl e \<Rightarrow> Inl e
             | Inr None \<Rightarrow> Inl NoneCondition
             | Inr (Some expr) \<Rightarrow> Inr expr)
          else Inr (BooleanLiteral True))"

subsection \<open>Columns after the merge\<close>

definition left_keys_same_name :: "(string \<times> string) list \<Rightarrow> string set" where
  "left_keys_same_name key_pairs = set (map fst (filter (\<lambda>(l, r). l = r) key_pairs))"

definition overlapping :: "string list \<Rightarrow> string list \<Rightarrow> (string \<times> string) list \<Rightarrow> string set" where
  "overlapping left_cols right_cols key_pairs =
     (set left_cols \<inter> set right_cols) - left_keys_same_name key_pairs"

text \<open>
  \<^verbatim>\<open>TdsColumn(name, type)\<close>. \<^verbatim>\<open>TdsColumn\<close> is the abstract base class of
  the columns, with the abstract methods \<^verbatim>\<open>get_type\<close>, \<^verbatim>\<open>copy\<close> and
  \<^verbatim>\<open>copy_with_changed_name\<close>; the columns of a frame are instances of its
  subclasses. Calling the class itself raises \<^verbatim>\<open>TypeError\<close>, whatever the
  arguments.
\<close>

definition TdsColumn :: "string \<Rightarrow> string \<Rightarrow> error + tds_column" where
  "TdsColumn name column_type = Inl AbstractColumnClass"

text \<open>
  The two loops of \<^verbatim>\<open>calculate_columns\<close>: a column whose name is in the overlap
  is built anew with \<^verbatim>\<open>TdsColumn\<close>, every other column is copied.
\<close>

fun left_columns_loop ::
  "string set \<Rightarrow> string \<Rightarrow> tds_column list \<Rightarrow> tds_column list \<Rightarrow> error + tds_column list" where
  "left_columns_loop ovl suffix result_cols [] = Inr result_cols"
| "left_columns_loop ovl suffix result_cols (c # cs) =
     (if col_name c \<in> ovl then
        (case TdsColumn (col_name c @ suffix) (col_type c) of
           Inl e \<Rightarrow> Inl e
         | Inr renamed \<Rightarrow> left_columns_loop ovl suffix (result_cols @ [renamed]) cs)
      else left_columns_loop ovl suffix (result_cols @ [c]) cs)"

fun right_columns_loop ::
  "(string \<times> string) list \<Rightarrow> string set \<Rightarrow> string \<Rightarrow> tds_column list \<Rightarrow> tds_column list
    \<Rightarrow> error + tds_column list" where
  "right_columns_loop key_pairs ovl suffix result_cols [] = Inr result_cols"
| "right_columns_loop key_pairs ovl suffix result_cols (c # cs) =
     (if list_ex (\<lambda>(l, r). col_name c = l \<and> l = r) key_pairs
      then right_columns_loop key_pairs ovl suffix result_cols cs
      else if col_name c \<in> ovl then
        (case TdsColumn (col_name c @ suffix) (col_type c) of
           Inl e \<Rightarrow> Inl e
         | Inr renamed \<Rightarrow> right_columns_loop key_pairs ovl suffix (result_cols @ [renamed]) cs)
      else right_columns_loop key_pairs ovl suffix (result_cols @ [c]) cs)"

definition calculate_columns ::
  "(string \<Rightarrow> nat) \<Rightarrow> ('r, 'e, 'c) merge_function \<Rightarrow> error + tds_column list" where
  "calculate_columns rank m =
     (case derive_key_pairs rank m of
        Inl e \<Rightarrow> Inl e
      | Inr key_pairs \<Rightarrow>
          (let left_cols = map col_name (columns (base_frame m));
               right_cols = map col_name (columns (other_frame m));
               ovl = overlapping left_cols right_cols key_pairs
           in case left_columns_loop ovl (fst (suffixes m)) [] (columns (base_frame m)) of
                Inl e \<Rightarrow> Inl e
              | Inr result_cols \<Rightarrow>
                  (case right_columns_loop key_pairs ovl (snd (suffixes m)) result_cols
                          (columns (other_frame m)) of
                     Inl e \<Rightarrow> Inl e
                   | Inr result_cols \<Rightarrow>
                       (let names = map col_name result_cols
                        in if length names \<noteq> card (set names) then Inl DuplicateColumns
                           else Inr result_cols))))"

text \<open>
  \<^verbatim>\<open>validate\<close>: the check that \<open>suffixes\<close> is a tuple of length two holds by the
  type of \<open>suffixes\<close>; then the keys and the join kind are resolved for their errors.
\<close>

definition validate :: "(string \<Rightarrow> nat) \<Rightarrow> ('r, 'e, 'c) merge_function \<Rightarrow> error + bool" where
  "validate rank m =
     (case derive_key_pairs rank m of
        Inl e \<Rightarrow> Inl e
      | Inr _ \<Rightarrow> (case join_type m of Inl e \<Rightarrow> Inl e | Inr _ \<Rightarrow> Inr True))"

subsection \<open>The relational plan\<close>

text \<open>
  What \<^verbatim>\<open>to_sql\<close> takes from outside this file, as parameters: the quoting of
  identifiers of the database extension, the helpers \<^verbatim>\<open>create_sub_query\<close> and
  \<^verbatim>\<open>extract_columns_for_subquery\<close>, and the translation of a condition to an SQL
  expression over the queries of the named rows. \<^verbatim>\<open>copy_query\<close> copies a value
  and is the identity here.
\<close>

record ('r, 'e) sql_config =
  quote_identifier :: "string \<Rightarrow> string"
  create_sub_query :: "('r, 'e) query_specification \<Rightarrow> string \<Rightarrow> ('r, 'e) query_specification"
  extract_columns_for_subquery :: "('r, 'e) query_specification \<Rightarrow> string list"
  to_sql_expression :: "condition \<Rightarrow> (string \<rightharpoonup> ('r, 'e) query_specification) \<Rightarrow> 'e"

definition left_select_step ::
  "('r, 'e) sql_config \<Rightarrow> string set \<Rightarrow> string \<Rightarrow> string \<Rightarrow> select_item list \<Rightarrow> tds_column
    \<Rightarrow> select_item list" where
  "left_select_step config ovl suffix left_alias select_items c =
     (let orig = col_name c;
          out_name = (if orig \<in> ovl then orig @ suffix else orig);
          q_out = quote_identifier config out_name;
          q_in = quote_identifier config orig
      in select_items @
           [SingleColumn q_out (QualifiedNameReference (QualifiedName [left_alias, q_in]))])"

definition right_select_step ::
  "('r, 'e) sql_config \<Rightarrow> string set \<Rightarrow> string set \<Rightarrow> string \<Rightarrow> string \<Rightarrow> select_item list
    \<Rightarrow> tds_column \<Rightarrow> select_item list" where
  "right_select_step config same_name_keys ovl suffix right_alias select_items c =
     (let orig = col_name c
      in if orig \<in> same_name_keys then select_items
         else
           (let out_name = (if orig \<in> ovl then orig @ suffix else orig);
                q_out = quote_identifier config out_name;
                q_in = quote_identifier config orig
            in select_items @
                 [SingleColumn q_out
                    (QualifiedNameReference (QualifiedName [right_alias, q_in]))]))"

definition to_sql ::
  "('r, 'e) sql_config \<Rightarrow> (string \<Rightarrow> bool) \<Rightarrow> (string \<Rightarrow> nat) \<Rightarrow> ('r, 'e, 'c) merge_function
    \<Rightarrow> error + ('r, 'e) query_specification" where
  "to_sql config supported rank m =
     (let left_query = to_sql_query_object (base_frame m);
          right_query = to_sql_query_object (other_frame m)
      in case build_condition supported rank m of
           Inl e \<Rightarrow> Inl e
         | Inr join_condition_expr \<Rightarrow>
             (let join_sql_expr = to_sql_expression config join_condition_expr
                    [''left'' \<mapsto> create_sub_query config left_query ''left'',
                     ''right'' \<mapsto> create_sub_query config right_query ''right''];
                  left_alias = quote_identifier config ''left'';
                  right_alias = quote_identifier config ''right''
              in case calculate_columns rank m of
                   Inl e \<Rightarrow> Inl e
                 | Inr result_columns \<Rightarrow>
                     (case derive_key_pairs rank m of
                        Inl e \<Rightarrow> Inl e
                      | Inr key_pairs \<Rightarrow>
                          (let same_name_keys = left_keys_same_name key_pairs;
                               ovl = overlapping (map col_name (columns (base_frame m)))
                                       (map col_name (columns (other_frame m))) key_pairs;
                               select_items =
                                 foldl (left_select_step config ovl (fst (suffixes m)) left_alias)
                                   [] (columns (base_frame m));
                               select_items =
                                 foldl (right_select_step config same_name_keys ovl
                                          (snd (suffixes m)) right_alias)
                                   select_items (columns (other_frame m))
                           in case join_type m of
                                Inl e \<Rightarrow> Inl e
                              | Inr jt \<Rightarrow>
                                  Inr (create_sub_query config
                                         (QuerySpecification
                                            \<lparr>selectItems = select_items, distinct_flag = False\<rparr>
                                            [Join jt
                                               (AliasedRelation
                                                  (TableSubquery (Query left_query None None []))
                                                  left_alias
                                                  (extract_columns_for_subquery config left_query))
                                               (AliasedRelation
                                                  (TableSubquery (Query right_query None None []))
                                                  right_alias
                                                  (extract_columns_for_subquery config right_query))
                                               (JoinOn join_sql_expr)]
                                            None [] None [] None None)
                                         ''root'')))))"

subsection \<open>The program text\<close>

text \<open>
  What \<^verbatim>\<open>to_pure\<close> takes from outside this file, as parameters: the separator and
  the indentation of the rendering configuration \<open>'c\<close>, the rendering of a condition, and
  \<^verbatim>\<open>generate_pure_lambda\<close>.
\<close>

record 'c pure_config =
  separator :: "'c \<Rightarrow> nat \<Rightarrow> bool \<Rightarrow> string"
  push_indent :: "'c \<Rightarrow> nat \<Rightarrow> 'c"
  to_pure_expression :: "condition \<Rightarrow> 'c \<Rightarrow> string"
  generate_pure_lambda :: "string \<Rightarrow> string \<Rightarrow> string"

definition pure_join_kind :: "string \<Rightarrow> string" where
  "pure_join_kind how_arg =
     (if lower how_arg = ''inner'' then ''INNER''
      else if lower how_arg \<in> set [''left'', ''left_outer''] then ''LEFT''
      else if lower how_arg \<in> set [''right'', ''right_outer''] then ''RIGHT''
      else ''FULL'')"

definition to_pure ::
  "'c pure_config \<Rightarrow> (string \<Rightarrow> bool) \<Rightarrow> (string \<Rightarrow> nat) \<Rightarrow> ('r, 'e, 'c) merge_function \<Rightarrow> 'c
    \<Rightarrow> error + string" where
  "to_pure ops supported rank m config =
     (let join_kind = pure_join_kind (how m)
      in case build_condition supported rank m of
           Inl e \<Rightarrow> Inl e
         | Inr cond_expr \<Rightarrow>
             (let cond_str = to_pure_expression ops cond_expr (push_indent ops config 2)
              in Inr (frame_to_pure (base_frame m) config @ separator ops config 1 False @
                      ''->merge('' @ separator ops config 2 False @
                      frame_to_pure (other_frame m) (push_indent ops config 2) @ '','' @
                      separator ops config 2 True @
                      ''JoinKind.'' @ join_kind @ '','' @ separator ops config 2 True @
                      generate_pure_lambda ops ''l, r'' cond_str @ separator ops config 1 False @
                      '')'')))"

subsection \<open>The specification's wording\<close>

text \<open>
  The definitions of this subsection follow the words of the specification, to be compared
  with the functions above: the same-named keys and the overlap set, the output schema, and
  the join predicate.
\<close>

definition spec_same_name_keys :: "(string \<times> string) list \<Rightarrow> string set" where
  "spec_same_name_keys pairs = {k. (k, k) \<in> set pairs}"

definition spec_overlap ::
  "tds_column list \<Rightarrow> tds_column list \<Rightarrow> (string \<times> string) list \<Rightarrow> string set" where
  "spec_overlap base_cols other_cols pairs =
     (col_name ` set base_cols \<inter> col_name ` set other_cols) - spec_same_name_keys pairs"

definition spec_rename :: "string set \<Rightarrow> string \<Rightarrow> tds_column \<Rightarrow> tds_column" where
  "spec_rename ovl suffix c =
     (if col_name c \<in> ovl then c\<lparr>col_name := col_name c @ suffix\<rparr> else c)"

definition spec_output_schema ::
  "tds_column list \<Rightarrow> tds_column list \<Rightarrow> (string \<times> string) list \<Rightarrow> string \<times> string
    \<Rightarrow> tds_column list" where
  "spec_output_schema base_cols other_cols pairs sfx =
     map (spec_rename (spec_overlap base_cols other_cols pairs) (fst sfx)) base_cols @
     map (spec_rename (spec_overlap base_cols other_cols pairs) (snd sfx))
       (filter (\<lambda>c. col_name c \<notin> spec_same_name_keys pairs) other_cols)"

definition spec_equality :: "string \<times> string \<Rightarrow> condition" where
  "spec_equality p = Equals (RowColumn ''left'' (fst p)) (RowColumn ''right'' (snd p))"

fun spec_predicate :: "(string \<times> string) list \<Rightarrow> condition" where
  "spec_predicate [] = BooleanLiteral True"
| "spec_predicate (p # pairs) = foldl (\<lambda>acc q. And acc (spec_equality q)) (spec_equality p) pairs"

text \<open>
  The first error among the accesses to the key columns, in the order in which the loop
  of the condition makes them: the left column of a pair, then its right column.
\<close>

fun key_access_error ::
  "(string \<Rightarrow> bool) \<Rightarrow> tds_column list \<Rightarrow> tds_column list \<Rightarrow> (string \<times> string) list
    \<Rightarrow> error option" where
  "key_access_error supported left_cols right_cols [] = None"
| "key_access_error supported left_cols right_cols (p # pairs) =
     (case row_getitem supported ''left'' left_cols (fst p) of
        Inl e \<Rightarrow> Some e
      | Inr _ \<Rightarrow>
          (case row_getitem supported ''right'' right_cols (snd p) of
             Inl e \<Rightarrow> Some e
           | Inr _ \<Rightarrow> key_access_error supported left_cols right_cols pairs))"

text \<open>
  The join node with its select list, as the specification describes it: the two compiled
  queries as subqueries aliased \<open>left\<close> and \<open>right\<close>, joined with the given kind, the
  predicate as the \<open>ON\<close> criterion.
\<close>

definition spec_join_with_select ::
  "('r, 'e) sql_config \<Rightarrow> ('r, 'e, 'c) merge_function \<Rightarrow> JoinType \<Rightarrow> select_item list
    \<Rightarrow> condition \<Rightarrow> ('r, 'e) query_specification" where
  "spec_join_with_select config m kind items predicate =
     QuerySpecification \<lparr>selectItems = items, distinct_flag = False\<rparr>
       [Join kind
          (AliasedRelation
             (TableSubquery (Query (to_sql_query_object (base_frame m)) None None []))
             (quote_identifier config ''left'')
             (extract_columns_for_subquery config (to_sql_query_object (base_frame m))))
          (AliasedRelation
             (TableSubquery (Query (to_sql_query_object (other_frame m)) None None []))
             (quote_identifier config ''right'')
             (extract_columns_for_subquery config (to_sql_query_object (other_frame m))))
          (JoinOn (to_sql_expression config predicate
             [''left'' \<mapsto> create_sub_query config (to_sql_query_object (base_frame m)) ''left'',
              ''right'' \<mapsto>
                create_sub_query config (to_sql_query_object (other_frame m)) ''right'']))]
       None [] None [] None None"

text \<open>
  The select list, one item for each entry of the output schema: the quoted output name
  for the quoted original name under the alias of its side.
\<close>

definition spec_select_item ::
  "('r, 'e) sql_config \<Rightarrow> string set \<Rightarrow> string \<Rightarrow> string \<Rightarrow> tds_column \<Rightarrow> select_item" where
  "spec_select_item config ovl suffix side c =
     SingleColumn (quote_identifier config (col_name (spec_rename ovl suffix c)))
       (QualifiedNameReference
          (QualifiedName [quote_identifier config side, quote_identifier config (col_name c)]))"

definition spec_select_items ::
  "('r, 'e) sql_config \<Rightarrow> tds_column list \<Rightarrow> tds_column list \<Rightarrow> (string \<times> string) list
    \<Rightarrow> string \<times> string \<Rightarrow> select_item list" where
  "spec_select_items config base_cols other_cols pairs sfx =
     map (spec_select_item config (spec_overlap base_cols other_cols pairs) (fst sfx) ''left'')
       base_cols @
     map (spec_select_item config (spec_overlap base_cols other_cols pairs) (snd sfx) ''right'')
       (filter (\<lambda>c. col_name c \<notin> spec_same_name_keys pairs) other_cols)"

text \<open>The text that \<^verbatim>\<open>to_pure\<close> returns, for a join kind and a condition.\<close>

definition merge_call_text ::
  "'c pure_config \<Rightarrow> ('r, 'e, 'c) merge_function \<Rightarrow> 'c \<Rightarrow> string \<Rightarrow> condition \<Rightarrow> string" where
  "merge_call_text ops m config join_kind cond_expr =
     frame_to_pure (base_frame m) config @ separator ops config 1 False @
     ''->merge('' @ separator ops config 2 False @
     frame_to_pure (other_frame m) (push_indent ops config 2) @ '','' @
     separator ops config 2 True @
     ''JoinKind.'' @ join_kind @ '','' @ separator ops config 2 True @
     generate_pure_lambda ops ''l, r''
       (to_pure_expression ops cond_expr (push_indent ops config 2)) @
     separator ops config 1 False @ '')''"

definition left_names :: "('r, 'e, 'c) merge_function \<Rightarrow> string list" where
  "left_names m = map col_name (columns (base_frame m))"

definition right_names :: "('r, 'e, 'c) merge_function \<Rightarrow> string list" where
  "right_names m = map col_name (columns (other_frame m))"

subsection \<open>Inputs of the test suite\<close>

text \<open>
  The columns of the frames that \<^verbatim>\<open>test_merge.py\<close> merges, and a frame over a
  table with given columns. The query and the program text of such a frame are opaque to
  the merge function; the ones here are small stand-ins of the right types, and so are
  the two configurations.
\<close>

definition test_columns :: "tds_column list" where
  "test_columns =
     [\<lparr>col_name = ''col1'', col_type = ''Integer''\<rparr>, \<lparr>col_name = ''col2'', col_type = ''String''\<rparr>,
      \<lparr>col_name = ''col3'', col_type = ''Float''\<rparr>, \<lparr>col_name = ''col4'', col_type = ''Float''\<rparr>,
      \<lparr>col_name = ''col5'', col_type = ''Float''\<rparr>]"

definition test_columns2 :: "tds_column list" where
  "test_columns2 =
     [\<lparr>col_name = ''col1'', col_type = ''Integer''\<rparr>, \<lparr>col_name = ''pol2'', col_type = ''String''\<rparr>,
      \<lparr>col_name = ''pol3'', col_type = ''Float''\<rparr>]"

definition test_columns_pol :: "tds_column list" where
  "test_columns_pol =
     [\<lparr>col_name = ''pol1'', col_type = ''Integer''\<rparr>, \<lparr>col_name = ''pol2'', col_type = ''String''\<rparr>,
      \<lparr>col_name = ''pol3'', col_type = ''Float''\<rparr>]"

definition table_frame :: "nat \<Rightarrow> string \<Rightarrow> tds_column list \<Rightarrow> (string, unit, unit) frame" where
  "table_frame i table cols =
     \<lparr>frame_id = i, columns = cols,
      to_sql_query_object =
        QuerySpecification \<lparr>selectItems = [], distinct_flag = False\<rparr>
          [AliasedRelation (OtherRelation table) ''root'' []] None [] None [] None None,
      frame_to_pure = (\<lambda>_. ''#Table('' @ table @ '')#'')\<rparr>"

definition test_frame :: "(string, unit, unit) frame" where
  "test_frame = table_frame 1 ''test_schema.test_table'' test_columns"

definition test_frame2 :: "(string, unit, unit) frame" where
  "test_frame2 = table_frame 2 ''test_schema.test_table_2'' test_columns2"

definition test_frame_pol :: "(string, unit, unit) frame" where
  "test_frame_pol = table_frame 3 ''test_schema.test_table_2'' test_columns_pol"

text \<open>The primitive column types, as the types for which a row gives an expression.\<close>

definition test_supported :: "string \<Rightarrow> bool" where
  "test_supported t \<longleftrightarrow>
     t \<in> set [''Boolean'', ''String'', ''Number'', ''Integer'', ''Float'', ''Date'', ''DateTime'',
               ''StrictDate'']"

definition test_sql_config :: "(string, unit) sql_config" where
  "test_sql_config =
     \<lparr>quote_identifier = (\<lambda>s. CHR 0x22 # s @ [CHR 0x22]),
      create_sub_query =
        (\<lambda>q a. QuerySpecification
                 \<lparr>selectItems = selectItems (qs_select q), distinct_flag = False\<rparr>
                 [AliasedRelation (TableSubquery (Query q None None [])) a []]
                 None [] None [] None None),
      extract_columns_for_subquery = (\<lambda>q. map item_alias (selectItems (qs_select q))),
      to_sql_expression = (\<lambda>c qs. ())\<rparr>"

text \<open>
  A rendering of conditions in the style of the program texts that the tests expect: a
  column of a row as \<open>$row.column\<close>, an equality with \<open>==\<close>, a conjunction with
  \<open>&&\<close>.
\<close>

fun render_condition :: "condition \<Rightarrow> string" where
  "render_condition (BooleanLiteral b) = (if b then ''true'' else ''false'')"
| "render_condition (RowColumn row c) = ''$'' @ row @ ''.'' @ c"
| "render_condition (Equals a b) = render_condition a @ '' == '' @ render_condition b"
| "render_condition (And a b) = render_condition a @ '' && '' @ render_condition b"

definition test_pure_config :: "unit pure_config" where
  "test_pure_config =
     \<lparr>separator = (\<lambda>c n b. if b then '' '' else []),
      push_indent = (\<lambda>c n. c),
      to_pure_expression = (\<lambda>e c. render_condition e),
      generate_pure_lambda = (\<lambda>params body. ''{'' @ params @ '' | '' @ body @ ''}'')\<rparr>"

section \<open>Properties\<close>

subsection \<open>Join-kind resolution\<close>

lemma join_type_recognized:
  "map_of recognized_spellings (lower (how m)) = Some k \<Longrightarrow> join_type m = Inr k"
  by (auto simp: join_type_def recognized_spellings_def Let_def split: if_splits)

lemma join_type_unrecognized:
  "map_of recognized_spellings (lower (how m)) = None \<Longrightarrow>
     join_type m = Inl (UnsupportedHow (how m))"
  by (auto simp: join_type_def recognized_spellings_def Let_def split: if_splits)

subsection \<open>Key resolution\<close>

lemma check_on_keys_None:
  "check_on_keys L R ks = None \<longleftrightarrow> set ks \<subseteq> set L \<inter> set R"
  by (induction ks) (auto simp: not_in_def)

lemma check_on_keys_Some:
  "check_on_keys L R ks = Some e \<Longrightarrow>
     \<exists>k \<in> set ks. k \<notin> set L \<inter> set R \<and> e = MergeKeyNotInBothFrames k"
  by (induction ks) (auto simp: not_in_def split: if_splits)

lemma check_left_keys_None: "check_left_keys L ks = None \<longleftrightarrow> set ks \<subseteq> set L"
  by (induction ks) (auto simp: not_in_def)

lemma check_left_keys_Some:
  "check_left_keys L ks = Some e \<Longrightarrow> \<exists>k \<in> set ks. k \<notin> set L \<and> e = LeftKeyNotFound k"
  by (induction ks) (auto simp: not_in_def split: if_splits)

lemma check_right_keys_None: "check_right_keys R ks = None \<longleftrightarrow> set ks \<subseteq> set R"
  by (induction ks) (auto simp: not_in_def)

lemma check_right_keys_Some:
  "check_right_keys R ks = Some e \<Longrightarrow> \<exists>k \<in> set ks. k \<notin> set R \<and> e = RightKeyNotFound k"
  by (induction ks) (auto simp: not_in_def split: if_splits)

lemma set_inferred_keys: "set (inferred_keys rank L R) = set L \<inter> set R"
  by (auto simp: inferred_keys_def)

lemma distinct_inferred_keys: "distinct (inferred_keys rank L R)"
  by (simp add: inferred_keys_def)

lemma is_not_None_iff: "is_not_None x \<longleftrightarrow> x \<noteq> None"
  by (cases x) simp_all

lemma truthy_iff: "truthy xs \<longleftrightarrow> xs \<noteq> []"
  by (cases xs) simp_all

lemma derive_key_pairs_conflict:
  "on m \<noteq> None \<Longrightarrow> left_on m \<noteq> None \<or> right_on m \<noteq> None \<Longrightarrow>
     derive_key_pairs rank m = Inl ConflictingKeys"
  by (simp add: derive_key_pairs_def is_not_None_iff)

lemma derive_key_pairs_on:
  "on m \<noteq> None \<Longrightarrow> left_on m = None \<Longrightarrow> right_on m = None \<Longrightarrow>
     derive_key_pairs rank m =
       (case check_on_keys (left_names m) (right_names m) (normalize_keys (on m)) of
          Some e \<Rightarrow> Inl e
        | None \<Rightarrow> Inr (map (\<lambda>k. (k, k)) (normalize_keys (on m))))"
  by (simp add: derive_key_pairs_def is_not_None_iff left_names_def right_names_def Let_def)

lemma derive_key_pairs_left_right:
  "on m = None \<Longrightarrow> normalize_keys (left_on m) \<noteq> [] \<or> normalize_keys (right_on m) \<noteq> [] \<Longrightarrow>
     derive_key_pairs rank m =
       (if length (normalize_keys (left_on m)) \<noteq> length (normalize_keys (right_on m))
        then Inl KeyLengthMismatch
        else case check_left_keys (left_names m) (normalize_keys (left_on m)) of
               Some e \<Rightarrow> Inl e
             | None \<Rightarrow>
                 (case check_right_keys (right_names m) (normalize_keys (right_on m)) of
                    Some e \<Rightarrow> Inl e
                  | None \<Rightarrow> Inr (zip (normalize_keys (left_on m)) (normalize_keys (right_on m)))))"
  by (simp add: derive_key_pairs_def truthy_iff left_names_def right_names_def Let_def
        split: option.splits)

lemma derive_key_pairs_inferred:
  "on m = None \<Longrightarrow> normalize_keys (left_on m) = [] \<Longrightarrow> normalize_keys (right_on m) = [] \<Longrightarrow>
     derive_key_pairs rank m =
       Inr (map (\<lambda>k. (k, k)) (inferred_keys rank (left_names m) (right_names m)))"
  by (simp add: derive_key_pairs_def left_names_def right_names_def Let_def)

lemma derive_key_pairs_not_how: "derive_key_pairs rank m \<noteq> Inl (UnsupportedHow s)"
proof
  assume a: "derive_key_pairs rank m = Inl (UnsupportedHow s)"
  then show False
    unfolding derive_key_pairs_def Let_def
    by (auto split: if_splits option.splits
          dest!: check_on_keys_Some check_left_keys_Some check_right_keys_Some)
qed

subsection \<open>The join condition\<close>

lemma row_getitem_Inr:
  "row_getitem supported row cols name = Inr x \<Longrightarrow> x = RowColumn row name"
  by (auto simp: row_getitem_def split: option.splits if_splits)

lemma condition_loop_Some:
  "condition_loop supported L R (Some e) key_pairs =
     (case key_access_error supported L R key_pairs of
        Some err \<Rightarrow> Inl err
      | None \<Rightarrow> Inr (Some (foldl (\<lambda>acc q. And acc (spec_equality q)) e key_pairs)))"
proof (induction key_pairs arbitrary: e)
  case Nil
  show ?case by simp
next
  case (Cons p ps)
  obtain l r where p: "p = (l, r)" by (cases p)
  show ?case
  proof (cases "row_getitem supported ''left'' L l")
    case (Inl err)
    then show ?thesis by (simp add: p)
  next
    case left: (Inr a)
    show ?thesis
    proof (cases "row_getitem supported ''right'' R r")
      case (Inl err)
      with left show ?thesis by (simp add: p)
    next
      case right: (Inr b)
      from left right show ?thesis
        using row_getitem_Inr [OF left] row_getitem_Inr [OF right]
        by (simp add: p Cons.IH spec_equality_def split: option.splits)
    qed
  qed
qed

lemma condition_loop_None:
  "condition_loop supported L R None (p # key_pairs) =
     (case key_access_error supported L R (p # key_pairs) of
        Some err \<Rightarrow> Inl err
      | None \<Rightarrow> Inr (Some (spec_predicate (p # key_pairs))))"
proof -
  obtain l r where p: "p = (l, r)" by (cases p)
  show ?thesis
  proof (cases "row_getitem supported ''left'' L l")
    case (Inl err)
    then show ?thesis by (simp add: p)
  next
    case left: (Inr a)
    show ?thesis
    proof (cases "row_getitem supported ''right'' R r")
      case (Inl err)
      with left show ?thesis by (simp add: p)
    next
      case right: (Inr b)
      from left right show ?thesis
        using row_getitem_Inr [OF left] row_getitem_Inr [OF right]
        by (simp add: p condition_loop_Some spec_equality_def split: option.splits)
    qed
  qed
qed

lemma build_condition_eq:
  "build_condition supported rank m =
     (case derive_key_pairs rank m of
        Inl e \<Rightarrow> Inl e
      | Inr key_pairs \<Rightarrow>
          (case key_access_error supported (columns (base_frame m)) (columns (other_frame m))
                  key_pairs of
             Some e \<Rightarrow> Inl e
           | None \<Rightarrow> Inr (spec_predicate key_pairs)))"
proof (cases "derive_key_pairs rank m")
  case (Inl e)
  then show ?thesis by (simp add: build_condition_def)
next
  case (Inr key_pairs)
  show ?thesis
  proof (cases key_pairs)
    case Nil
    with Inr show ?thesis by (simp add: build_condition_def)
  next
    case (Cons p ps)
    show ?thesis
    proof (cases "key_access_error supported (columns (base_frame m))
        (columns (other_frame m)) (p # ps)")
      case None
      with Inr Cons show ?thesis
        by (simp add: build_condition_def condition_loop_None
              del: spec_predicate.simps key_access_error.simps)
    next
      case (Some err)
      with Inr Cons show ?thesis
        by (simp add: build_condition_def condition_loop_None
              del: spec_predicate.simps key_access_error.simps)
    qed
  qed
qed

lemma key_access_error_not_how:
  "key_access_error supported L R key_pairs \<noteq> Some (UnsupportedHow s)"
  by (induction key_pairs)
     (auto simp: row_getitem_def split: sum.splits option.splits if_splits)

lemma key_access_error_supported:
  assumes "set (map fst key_pairs) \<subseteq> col_name ` set L"
    and "set (map snd key_pairs) \<subseteq> col_name ` set R"
    and "\<forall>c \<in> set L \<union> set R. supported (col_type c)"
  shows "key_access_error supported L R key_pairs = None"
  using assms
proof (induction key_pairs)
  case Nil
  show ?case by simp
next
  case (Cons p ps)
  have found: "\<exists>c. find (\<lambda>c. col_name c = n) cols = Some c \<and> c \<in> set cols"
    if "n \<in> col_name ` set cols" for n and cols :: "tds_column list"
  proof (cases "find (\<lambda>c. col_name c = n) cols")
    case None
    with that show ?thesis by (auto simp: find_None_iff)
  next
    case (Some c)
    then show ?thesis by (auto simp: find_Some_iff in_set_conv_nth)
  qed
  from Cons.prems(1) have "fst p \<in> col_name ` set L" by simp
  from found [OF this] obtain a where
    a: "find (\<lambda>c. col_name c = fst p) L = Some a" "a \<in> set L" by blast
  from Cons.prems(2) have "snd p \<in> col_name ` set R" by simp
  from found [OF this] obtain b where
    b: "find (\<lambda>c. col_name c = snd p) R = Some b" "b \<in> set R" by blast
  from a b Cons.prems(3) have sup: "supported (col_type a)" "supported (col_type b)"
    by auto
  from Cons.prems have "key_access_error supported L R ps = None"
    by (intro Cons.IH) auto
  with a b sup show ?case by (simp add: row_getitem_def)
qed

subsection \<open>Columns after the merge\<close>

lemma left_keys_same_name_eq: "left_keys_same_name key_pairs = spec_same_name_keys key_pairs"
  by (auto simp: left_keys_same_name_def spec_same_name_keys_def image_iff)

lemma overlapping_eq:
  "overlapping (map col_name base_cols) (map col_name other_cols) key_pairs =
     spec_overlap base_cols other_cols key_pairs"
  by (simp add: overlapping_def spec_overlap_def left_keys_same_name_eq)

lemma list_ex_same_name:
  "list_ex (\<lambda>(l, r). n = l \<and> l = r) key_pairs \<longleftrightarrow> n \<in> spec_same_name_keys key_pairs"
  by (auto simp: list_ex_iff spec_same_name_keys_def)

lemma left_columns_loop_eq:
  "left_columns_loop ovl sfx acc cs =
     (if list_ex (\<lambda>c. col_name c \<in> ovl) cs then Inl AbstractColumnClass else Inr (acc @ cs))"
  by (induction cs arbitrary: acc) (simp_all add: TdsColumn_def)

lemma right_columns_loop_eq:
  "right_columns_loop key_pairs ovl sfx acc cs =
     (if list_ex (\<lambda>c. col_name c \<in> ovl)
           (filter (\<lambda>c. col_name c \<notin> spec_same_name_keys key_pairs) cs)
      then Inl AbstractColumnClass
      else Inr (acc @ filter (\<lambda>c. col_name c \<notin> spec_same_name_keys key_pairs) cs))"
  by (induction cs arbitrary: acc) (simp_all add: TdsColumn_def list_ex_same_name)

lemma overlap_in_base:
  "list_ex (\<lambda>c. col_name c \<in> spec_overlap base_cols other_cols key_pairs) base_cols \<longleftrightarrow>
     spec_overlap base_cols other_cols key_pairs \<noteq> {}"
  by (auto simp: list_ex_iff spec_overlap_def)

lemma no_overlap_in_other:
  "spec_overlap base_cols other_cols key_pairs = {} \<Longrightarrow>
     \<not> list_ex (\<lambda>c. col_name c \<in> spec_overlap base_cols other_cols key_pairs) cs"
  by (simp add: list_ex_iff)

lemma spec_rename_empty: "map (spec_rename {} sfx) cs = cs"
  by (induction cs) (simp_all add: spec_rename_def)

lemma spec_output_schema_no_overlap:
  "spec_overlap base_cols other_cols key_pairs = {} \<Longrightarrow>
     spec_output_schema base_cols other_cols key_pairs sfx =
       base_cols @ filter (\<lambda>c. col_name c \<notin> spec_same_name_keys key_pairs) other_cols"
  by (simp add: spec_output_schema_def spec_rename_empty)

lemma length_card_distinct: "length xs \<noteq> card (set xs) \<longleftrightarrow> \<not> distinct xs"
proof
  assume "length xs \<noteq> card (set xs)"
  then show "\<not> distinct xs" using distinct_card [of xs] by auto
next
  assume "\<not> distinct xs"
  then show "length xs \<noteq> card (set xs)" using card_distinct [of xs] by auto
qed

lemma calculate_columns_eq:
  assumes "derive_key_pairs rank m = Inr key_pairs"
  shows "calculate_columns rank m =
           (if spec_overlap (columns (base_frame m)) (columns (other_frame m)) key_pairs \<noteq> {}
            then Inl AbstractColumnClass
            else if distinct (map col_name
                 (spec_output_schema (columns (base_frame m)) (columns (other_frame m))
                    key_pairs (suffixes m)))
            then Inr (spec_output_schema (columns (base_frame m)) (columns (other_frame m))
                        key_pairs (suffixes m))
            else Inl DuplicateColumns)"
proof (cases "spec_overlap (columns (base_frame m)) (columns (other_frame m)) key_pairs = {}")
  case False
  then show ?thesis
    by (simp add: calculate_columns_def assms Let_def overlapping_eq left_columns_loop_eq
          overlap_in_base)
next
  case True
  have left: "left_columns_loop
      (spec_overlap (columns (base_frame m)) (columns (other_frame m)) key_pairs)
      (fst (suffixes m)) [] (columns (base_frame m)) = Inr (columns (base_frame m))"
    using no_overlap_in_other [OF True] by (simp add: left_columns_loop_eq)
  have right: "right_columns_loop key_pairs
      (spec_overlap (columns (base_frame m)) (columns (other_frame m)) key_pairs)
      (snd (suffixes m)) (columns (base_frame m)) (columns (other_frame m)) =
      Inr (spec_output_schema (columns (base_frame m)) (columns (other_frame m))
             key_pairs (suffixes m))"
    using no_overlap_in_other [OF True]
    by (simp add: right_columns_loop_eq spec_output_schema_no_overlap [OF True])
  have dup: "length (map col_name cols) \<noteq> card (set (map col_name cols)) \<longleftrightarrow>
      \<not> distinct (map col_name cols)" for cols :: "tds_column list"
    by (rule length_card_distinct)
  show ?thesis
    unfolding calculate_columns_def assms sum.case Let_def overlapping_eq left right dup
    using True
    by (cases "distinct (map col_name (spec_output_schema (columns (base_frame m))
          (columns (other_frame m)) key_pairs (suffixes m)))")
       (simp_all only: if_True if_False not_True_eq_False not_False_eq_True simp_thms)
qed

lemma calculate_columns_keys:
  "calculate_columns rank m = Inr cols \<Longrightarrow> \<exists>key_pairs. derive_key_pairs rank m = Inr key_pairs"
  by (cases "derive_key_pairs rank m") (simp_all add: calculate_columns_def)

lemma calculate_columns_error:
  "derive_key_pairs rank m = Inl e \<Longrightarrow> calculate_columns rank m = Inl e"
  by (simp add: calculate_columns_def)

subsection \<open>The relational plan\<close>

lemma foldl_left_select_step:
  "foldl (left_select_step config ovl sfx (quote_identifier config ''left'')) acc cs =
     acc @ map (spec_select_item config ovl sfx ''left'') cs"
  by (induction cs arbitrary: acc)
     (simp_all add: left_select_step_def spec_select_item_def spec_rename_def Let_def)

lemma foldl_right_select_step:
  "foldl (right_select_step config (spec_same_name_keys key_pairs) ovl sfx
            (quote_identifier config ''right'')) acc cs =
     acc @ map (spec_select_item config ovl sfx ''right'')
             (filter (\<lambda>c. col_name c \<notin> spec_same_name_keys key_pairs) cs)"
  by (induction cs arbitrary: acc)
     (simp_all add: right_select_step_def spec_select_item_def spec_rename_def Let_def)

lemma select_loops_eq:
  "foldl (right_select_step config (left_keys_same_name key_pairs)
            (overlapping (map col_name base_cols) (map col_name other_cols) key_pairs) sfx2
            (quote_identifier config ''right''))
     (foldl (left_select_step config
               (overlapping (map col_name base_cols) (map col_name other_cols) key_pairs) sfx1
               (quote_identifier config ''left''))
        [] base_cols)
     other_cols = spec_select_items config base_cols other_cols key_pairs (sfx1, sfx2)"
  by (simp only: foldl_left_select_step foldl_right_select_step overlapping_eq
        left_keys_same_name_eq spec_select_items_def append_Nil fst_conv snd_conv)

lemma select_items_aliases:
  "map item_alias (spec_select_items config base_cols other_cols pairs sfx) =
     map (\<lambda>c. quote_identifier config (col_name c))
       (spec_output_schema base_cols other_cols pairs sfx)"
  by (simp add: spec_select_items_def spec_output_schema_def spec_select_item_def o_def)

lemma to_sql_eq:
  assumes "derive_key_pairs rank m = Inr key_pairs"
    and "key_access_error supported (columns (base_frame m)) (columns (other_frame m))
           key_pairs = None"
    and "calculate_columns rank m = Inr cols"
    and "join_type m = Inr kind"
  shows "to_sql config supported rank m =
           Inr (create_sub_query config
                  (spec_join_with_select config m kind
                     (spec_select_items config (columns (base_frame m))
                        (columns (other_frame m)) key_pairs (suffixes m))
                     (spec_predicate key_pairs))
                  ''root'')"
proof -
  have sfx: "(fst (suffixes m), snd (suffixes m)) = suffixes m" by simp
  have cond: "build_condition supported rank m = Inr (spec_predicate key_pairs)"
    by (simp add: build_condition_eq assms(1,2))
  show ?thesis
    unfolding to_sql_def cond assms sum.case Let_def select_loops_eq sfx
      spec_join_with_select_def
    by (rule refl)
qed

lemma to_sql_Inr_D:
  assumes "to_sql config supported rank m = Inr plan"
  shows "\<exists>key_pairs cols kind. derive_key_pairs rank m = Inr key_pairs \<and>
           key_access_error supported (columns (base_frame m)) (columns (other_frame m))
             key_pairs = None \<and>
           calculate_columns rank m = Inr cols \<and> join_type m = Inr kind"
proof -
  obtain key_pairs where k: "derive_key_pairs rank m = Inr key_pairs"
    using assms by (cases "derive_key_pairs rank m") (simp_all add: to_sql_def build_condition_eq)
  have a: "key_access_error supported (columns (base_frame m)) (columns (other_frame m))
             key_pairs = None"
    using assms k
    by (cases "key_access_error supported (columns (base_frame m)) (columns (other_frame m))
             key_pairs") (simp_all add: to_sql_def build_condition_eq)
  obtain cols where c: "calculate_columns rank m = Inr cols"
    using assms k a
    by (cases "calculate_columns rank m") (simp_all add: to_sql_def build_condition_eq Let_def)
  obtain kind where j: "join_type m = Inr kind"
    using assms k a c
    by (cases "join_type m") (simp_all add: to_sql_def build_condition_eq Let_def)
  from k a c j show ?thesis by blast
qed

lemma to_sql_join_type_error:
  assumes "join_type m = Inl e"
  shows "\<exists>e'. to_sql config supported rank m = Inl e'"
proof (cases "to_sql config supported rank m")
  case (Inl e')
  then show ?thesis by blast
next
  case (Inr plan)
  then show ?thesis using to_sql_Inr_D [OF Inr] assms by auto
qed

lemma to_sql_unsupported:
  assumes "derive_key_pairs rank m = Inr key_pairs"
    and "key_access_error supported (columns (base_frame m)) (columns (other_frame m))
           key_pairs = None"
    and "calculate_columns rank m = Inr cols"
    and "join_type m = Inl e"
  shows "to_sql config supported rank m = Inl e"
proof -
  have cond: "build_condition supported rank m = Inr (spec_predicate key_pairs)"
    by (simp add: build_condition_eq assms(1,2))
  show ?thesis
    unfolding to_sql_def cond assms sum.case Let_def by (rule refl)
qed

subsection \<open>The program text\<close>

lemma to_pure_eq:
  "to_pure ops supported rank m config =
     (case derive_key_pairs rank m of
        Inl e \<Rightarrow> Inl e
      | Inr key_pairs \<Rightarrow>
          (case key_access_error supported (columns (base_frame m)) (columns (other_frame m))
                  key_pairs of
             Some e \<Rightarrow> Inl e
           | None \<Rightarrow>
               Inr (merge_call_text ops m config (pure_join_kind (how m))
                      (spec_predicate key_pairs))))"
  by (cases "derive_key_pairs rank m")
     (simp_all add: to_pure_def build_condition_eq merge_call_text_def Let_def
        split: option.splits)

lemma pure_join_kind_unrecognized:
  "map_of recognized_spellings (lower h) = None \<Longrightarrow> pure_join_kind h = ''FULL''"
  by (auto simp: pure_join_kind_def recognized_spellings_def split: if_splits)

lemma validate_eq:
  "derive_key_pairs rank m = Inr key_pairs \<Longrightarrow>
     validate rank m = (case join_type m of Inl e \<Rightarrow> Inl e | Inr _ \<Rightarrow> Inr True)"
  by (simp add: validate_def)

lemmas test_inputs =
  test_frame_def test_frame2_def test_frame_pol_def table_frame_def
  test_columns_def test_columns2_def test_columns_pol_def test_supported_def

lemma lower_examples:
  "lower ''Left_Outer'' = ''left_outer''" "lower ''cross'' = ''cross''" "lower ''inner'' = ''inner''"
  by code_simp+

section \<open>The claims\<close>

text \<open>
  C8. Join-kind resolution is case-insensitive and total over the eight recognized
  spellings: whenever the lower-cased \<open>how\<close> is one of the eight spellings the result is
  the kind of that spelling (\<open>inner\<close> gives INNER, \<open>left\<close> and \<open>left_outer\<close> LEFT,
  \<open>right\<close> and \<open>right_outer\<close> RIGHT, \<open>outer\<close>, \<open>full\<close> and \<open>full_outer\<close> FULL), each
  of the eight spellings resolves as written, and for every other string the result is the
  error that carries the string as it was given.
\<close>

theorem join_type_resolution:
  "(\<forall>kind. map_of recognized_spellings (lower (how m)) = Some kind \<longrightarrow> join_type m = Inr kind) \<and>
   (map_of recognized_spellings (lower (how m)) = None \<longrightarrow>
      join_type m = Inl (UnsupportedHow (how m))) \<and>
   (\<forall>(s, kind) \<in> set recognized_spellings. join_type (m\<lparr>how := s\<rparr>) = Inr kind)"
proof (intro conjI allI impI)
  fix kind
  assume "map_of recognized_spellings (lower (how m)) = Some kind"
  then show "join_type m = Inr kind" by (rule join_type_recognized)
next
  assume "map_of recognized_spellings (lower (how m)) = None"
  then show "join_type m = Inl (UnsupportedHow (how m))" by (rule join_type_unrecognized)
next
  show "\<forall>(s, kind) \<in> set recognized_spellings. join_type (m\<lparr>how := s\<rparr>) = Inr kind"
    by (simp add: recognized_spellings_def join_type_def lower_def lower_char_def)
qed

theorem join_type_resolution_witness:
  "join_type \<lparr>base_frame = test_frame, other_frame = test_frame2, on = Some (Name ''col1''),
              left_on = None, right_on = None, how = ''Left_Outer'',
              suffixes = (''_x'', ''_y'')\<rparr> = Inr LEFT \<and>
   join_type \<lparr>base_frame = test_frame, other_frame = test_frame2, on = Some (Name ''col1''),
              left_on = None, right_on = None, how = ''cross'',
              suffixes = (''_x'', ''_y'')\<rparr> = Inl (UnsupportedHow ''cross'') \<and>
   join_type \<lparr>base_frame = test_frame, other_frame = test_frame2, on = Some (Name ''col1''),
              left_on = None, right_on = None, how = ''full'',
              suffixes = (''_x'', ''_y'')\<rparr> = Inr FULL"
  using
    join_type_resolution [of "\<lparr>base_frame = test_frame, other_frame = test_frame2,
      on = Some (Name ''col1''), left_on = None, right_on = None, how = ''Left_Outer'',
      suffixes = (''_x'', ''_y'')\<rparr>"]
    join_type_resolution [of "\<lparr>base_frame = test_frame, other_frame = test_frame2,
      on = Some (Name ''col1''), left_on = None, right_on = None, how = ''cross'',
      suffixes = (''_x'', ''_y'')\<rparr>"]
  by (simp add: recognized_spellings_def lower_examples)

text \<open>
  C7, as stated, fails where \<open>left_on\<close> and \<open>right_on\<close> are supplied as empty lists: the
  claim gives the positional zip, which is empty, and the source, whose test is
  \<^verbatim>\<open>if left_keys or right_keys\<close>, infers the keys from the common column names.
\<close>

theorem explicit_empty_keys_counterexample:
  "derive_key_pairs (\<lambda>_. 0)
     \<lparr>base_frame = test_frame, other_frame = test_frame2, on = None,
      left_on = Some (Names []), right_on = Some (Names []), how = ''inner'',
      suffixes = (''_x'', ''_y'')\<rparr> = Inr [(''col1'', ''col1'')] \<and>
   derive_key_pairs (\<lambda>_. 0)
     \<lparr>base_frame = test_frame, other_frame = test_frame2, on = None,
      left_on = Some (Names []), right_on = Some (Names []), how = ''inner'',
      suffixes = (''_x'', ''_y'')\<rparr> \<noteq>
     Inr (zip (normalize_keys (Some (Names []))) (normalize_keys (Some (Names []))))"
  by (simp add: derive_key_pairs_def inferred_keys_def test_inputs)

text \<open>
  C7, amended. Key resolution with explicit keys: \<open>on\<close> together with \<open>left_on\<close> or
  \<open>right_on\<close> gives the conflicting-keys error. With \<open>on\<close> alone, a bare name is
  normalized to a one-element list; if every name is a column of both frames the result is
  the list of pairs \<open>(k, k)\<close> in the given order, otherwise the error names a key that is
  missing from one of the frames. With \<open>left_on\<close> or \<open>right_on\<close> supplied and at least one
  of them normalized to a non-empty list: different lengths give the length error; a left
  name that is no column of the base frame gives the error naming it; otherwise a right
  name that is no column of the other frame gives the error naming it; otherwise the result
  is the positional zip in the given order. When no \<open>on\<close> is given and both \<open>left_on\<close>
  and \<open>right_on\<close> normalize to the empty list, the keys are inferred as if no explicit
  keys had been given.
\<close>

theorem explicit_key_resolution:
  "(on m \<noteq> None \<and> (left_on m \<noteq> None \<or> right_on m \<noteq> None) \<longrightarrow>
      derive_key_pairs rank m = Inl ConflictingKeys) \<and>
   normalize_keys (Some (Name s)) = [s] \<and>
   normalize_keys (Some (Names ks)) = ks \<and>
   (on m \<noteq> None \<and> left_on m = None \<and> right_on m = None \<longrightarrow>
      (set (normalize_keys (on m)) \<subseteq> set (left_names m) \<inter> set (right_names m) \<longrightarrow>
         derive_key_pairs rank m = Inr (map (\<lambda>k. (k, k)) (normalize_keys (on m)))) \<and>
      (\<not> set (normalize_keys (on m)) \<subseteq> set (left_names m) \<inter> set (right_names m) \<longrightarrow>
         (\<exists>k \<in> set (normalize_keys (on m)). k \<notin> set (left_names m) \<inter> set (right_names m) \<and>
            derive_key_pairs rank m = Inl (MergeKeyNotInBothFrames k)))) \<and>
   (on m = None \<and> (normalize_keys (left_on m) \<noteq> [] \<or> normalize_keys (right_on m) \<noteq> []) \<longrightarrow>
      (length (normalize_keys (left_on m)) \<noteq> length (normalize_keys (right_on m)) \<longrightarrow>
         derive_key_pairs rank m = Inl KeyLengthMismatch) \<and>
      (length (normalize_keys (left_on m)) = length (normalize_keys (right_on m)) \<and>
       \<not> set (normalize_keys (left_on m)) \<subseteq> set (left_names m) \<longrightarrow>
         (\<exists>k \<in> set (normalize_keys (left_on m)). k \<notin> set (left_names m) \<and>
            derive_key_pairs rank m = Inl (LeftKeyNotFound k))) \<and>
      (length (normalize_keys (left_on m)) = length (normalize_keys (right_on m)) \<and>
       set (normalize_keys (left_on m)) \<subseteq> set (left_names m) \<and>
       \<not> set (normalize_keys (right_on m)) \<subseteq> set (right_names m) \<longrightarrow>
         (\<exists>k \<in> set (normalize_keys (right_on m)). k \<notin> set (right_names m) \<and>
            derive_key_pairs rank m = Inl (RightKeyNotFound k))) \<and>
      (length (normalize_keys (left_on m)) = length (normalize_keys (right_on m)) \<and>
       set (normalize_keys (left_on m)) \<subseteq> set (left_names m) \<and>
       set (normalize_keys (right_on m)) \<subseteq> set (right_names m) \<longrightarrow>
         derive_key_pairs rank m =
           Inr (zip (normalize_keys (left_on m)) (normalize_keys (right_on m))))) \<and>
   (on m = None \<and> normalize_keys (left_on m) = [] \<and> normalize_keys (right_on m) = [] \<longrightarrow>
      (\<exists>names. derive_key_pairs rank m = Inr (map (\<lambda>k. (k, k)) names) \<and> distinct names \<and>
         set names = set (left_names m) \<inter> set (right_names m)))"
proof -
  have conflict: "on m \<noteq> None \<and> (left_on m \<noteq> None \<or> right_on m \<noteq> None) \<longrightarrow>
      derive_key_pairs rank m = Inl ConflictingKeys"
    using derive_key_pairs_conflict by blast
  have on_ok: "on m \<noteq> None \<and> left_on m = None \<and> right_on m = None \<longrightarrow>
      set (normalize_keys (on m)) \<subseteq> set (left_names m) \<inter> set (right_names m) \<longrightarrow>
      derive_key_pairs rank m = Inr (map (\<lambda>k. (k, k)) (normalize_keys (on m)))"
  proof (intro impI)
    assume a: "on m \<noteq> None \<and> left_on m = None \<and> right_on m = None"
      and b: "set (normalize_keys (on m)) \<subseteq> set (left_names m) \<inter> set (right_names m)"
    from b have "check_on_keys (left_names m) (right_names m) (normalize_keys (on m)) = None"
      by (simp only: check_on_keys_None)
    with a show "derive_key_pairs rank m = Inr (map (\<lambda>k. (k, k)) (normalize_keys (on m)))"
      by (simp add: derive_key_pairs_on)
  qed
  have on_bad: "on m \<noteq> None \<and> left_on m = None \<and> right_on m = None \<longrightarrow>
      \<not> set (normalize_keys (on m)) \<subseteq> set (left_names m) \<inter> set (right_names m) \<longrightarrow>
      (\<exists>k \<in> set (normalize_keys (on m)). k \<notin> set (left_names m) \<inter> set (right_names m) \<and>
         derive_key_pairs rank m = Inl (MergeKeyNotInBothFrames k))"
  proof (intro impI)
    assume a: "on m \<noteq> None \<and> left_on m = None \<and> right_on m = None"
      and b: "\<not> set (normalize_keys (on m)) \<subseteq> set (left_names m) \<inter> set (right_names m)"
    from b have "check_on_keys (left_names m) (right_names m) (normalize_keys (on m)) \<noteq> None"
      by (simp only: check_on_keys_None not_False_eq_True)
    then obtain e where
      e: "check_on_keys (left_names m) (right_names m) (normalize_keys (on m)) = Some e"
      by blast
    from check_on_keys_Some [OF e] obtain k where
      k: "k \<in> set (normalize_keys (on m))" "k \<notin> set (left_names m) \<inter> set (right_names m)"
        "e = MergeKeyNotInBothFrames k"
      by blast
    from a e k(3) have "derive_key_pairs rank m = Inl (MergeKeyNotInBothFrames k)"
      by (simp add: derive_key_pairs_on)
    with k show "\<exists>k \<in> set (normalize_keys (on m)).
        k \<notin> set (left_names m) \<inter> set (right_names m) \<and>
        derive_key_pairs rank m = Inl (MergeKeyNotInBothFrames k)"
      by blast
  qed
  have lr: "on m = None \<and>
      (normalize_keys (left_on m) \<noteq> [] \<or> normalize_keys (right_on m) \<noteq> []) \<longrightarrow>
      (length (normalize_keys (left_on m)) \<noteq> length (normalize_keys (right_on m)) \<longrightarrow>
         derive_key_pairs rank m = Inl KeyLengthMismatch) \<and>
      (length (normalize_keys (left_on m)) = length (normalize_keys (right_on m)) \<and>
       \<not> set (normalize_keys (left_on m)) \<subseteq> set (left_names m) \<longrightarrow>
         (\<exists>k \<in> set (normalize_keys (left_on m)). k \<notin> set (left_names m) \<and>
            derive_key_pairs rank m = Inl (LeftKeyNotFound k))) \<and>
      (length (normalize_keys (left_on m)) = length (normalize_keys (right_on m)) \<and>
       set (normalize_keys (left_on m)) \<subseteq> set (left_names m) \<and>
       \<not> set (normalize_keys (right_on m)) \<subseteq> set (right_names m) \<longrightarrow>
         (\<exists>k \<in> set (normalize_keys (right_on m)). k \<notin> set (right_names m) \<and>
            derive_key_pairs rank m = Inl (RightKeyNotFound k))) \<and>
      (length (normalize_keys (left_on m)) = length (normalize_keys (right_on m)) \<and>
       set (normalize_keys (left_on m)) \<subseteq> set (left_names m) \<and>
       set (normalize_keys (right_on m)) \<subseteq> set (right_names m) \<longrightarrow>
         derive_key_pairs rank m =
           Inr (zip (normalize_keys (left_on m)) (normalize_keys (right_on m))))"
  proof (intro impI)
    assume a: "on m = None \<and>
      (normalize_keys (left_on m) \<noteq> [] \<or> normalize_keys (right_on m) \<noteq> [])"
    then have eq: "derive_key_pairs rank m =
       (if length (normalize_keys (left_on m)) \<noteq> length (normalize_keys (right_on m))
        then Inl KeyLengthMismatch
        else case check_left_keys (left_names m) (normalize_keys (left_on m)) of
               Some e \<Rightarrow> Inl e
             | None \<Rightarrow>
                 (case check_right_keys (right_names m) (normalize_keys (right_on m)) of
                    Some e \<Rightarrow> Inl e
                  | None \<Rightarrow> Inr (zip (normalize_keys (left_on m)) (normalize_keys (right_on m)))))"
      using derive_key_pairs_left_right [of m rank] by blast
    have 1: "length (normalize_keys (left_on m)) \<noteq> length (normalize_keys (right_on m)) \<longrightarrow>
         derive_key_pairs rank m = Inl KeyLengthMismatch"
      by (simp add: eq)
    have 2: "length (normalize_keys (left_on m)) = length (normalize_keys (right_on m)) \<and>
       \<not> set (normalize_keys (left_on m)) \<subseteq> set (left_names m) \<longrightarrow>
         (\<exists>k \<in> set (normalize_keys (left_on m)). k \<notin> set (left_names m) \<and>
            derive_key_pairs rank m = Inl (LeftKeyNotFound k))"
    proof (intro impI)
      assume b: "length (normalize_keys (left_on m)) = length (normalize_keys (right_on m)) \<and>
         \<not> set (normalize_keys (left_on m)) \<subseteq> set (left_names m)"
      then have "check_left_keys (left_names m) (normalize_keys (left_on m)) \<noteq> None"
        by (simp only: check_left_keys_None not_False_eq_True)
      then obtain e where
        e: "check_left_keys (left_names m) (normalize_keys (left_on m)) = Some e" by blast
      from check_left_keys_Some [OF e] obtain k where
        k: "k \<in> set (normalize_keys (left_on m))" "k \<notin> set (left_names m)"
          "e = LeftKeyNotFound k"
        by blast
      from b e k(3) have "derive_key_pairs rank m = Inl (LeftKeyNotFound k)"
        by (simp add: eq)
      with k show "\<exists>k \<in> set (normalize_keys (left_on m)). k \<notin> set (left_names m) \<and>
            derive_key_pairs rank m = Inl (LeftKeyNotFound k)"
        by blast
    qed
    have 3: "length (normalize_keys (left_on m)) = length (normalize_keys (right_on m)) \<and>
       set (normalize_keys (left_on m)) \<subseteq> set (left_names m) \<and>
       \<not> set (normalize_keys (right_on m)) \<subseteq> set (right_names m) \<longrightarrow>
         (\<exists>k \<in> set (normalize_keys (right_on m)). k \<notin> set (right_names m) \<and>
            derive_key_pairs rank m = Inl (RightKeyNotFound k))"
    proof (intro impI)
      assume b: "length (normalize_keys (left_on m)) = length (normalize_keys (right_on m)) \<and>
         set (normalize_keys (left_on m)) \<subseteq> set (left_names m) \<and>
         \<not> set (normalize_keys (right_on m)) \<subseteq> set (right_names m)"
      then have l: "check_left_keys (left_names m) (normalize_keys (left_on m)) = None"
        by (simp only: check_left_keys_None)
      from b have "check_right_keys (right_names m) (normalize_keys (right_on m)) \<noteq> None"
        by (simp only: check_right_keys_None not_False_eq_True)
      then obtain e where
        e: "check_right_keys (right_names m) (normalize_keys (right_on m)) = Some e" by blast
      from check_right_keys_Some [OF e] obtain k where
        k: "k \<in> set (normalize_keys (right_on m))" "k \<notin> set (right_names m)"
          "e = RightKeyNotFound k"
        by blast
      from b l e k(3) have "derive_key_pairs rank m = Inl (RightKeyNotFound k)"
        by (simp add: eq)
      with k show "\<exists>k \<in> set (normalize_keys (right_on m)). k \<notin> set (right_names m) \<and>
            derive_key_pairs rank m = Inl (RightKeyNotFound k)"
        by blast
    qed
    have 4: "length (normalize_keys (left_on m)) = length (normalize_keys (right_on m)) \<and>
       set (normalize_keys (left_on m)) \<subseteq> set (left_names m) \<and>
       set (normalize_keys (right_on m)) \<subseteq> set (right_names m) \<longrightarrow>
         derive_key_pairs rank m =
           Inr (zip (normalize_keys (left_on m)) (normalize_keys (right_on m)))"
    proof (intro impI)
      assume b: "length (normalize_keys (left_on m)) = length (normalize_keys (right_on m)) \<and>
         set (normalize_keys (left_on m)) \<subseteq> set (left_names m) \<and>
         set (normalize_keys (right_on m)) \<subseteq> set (right_names m)"
      then have l: "check_left_keys (left_names m) (normalize_keys (left_on m)) = None"
        and r: "check_right_keys (right_names m) (normalize_keys (right_on m)) = None"
        by (simp_all only: check_left_keys_None check_right_keys_None)
      from b l r show "derive_key_pairs rank m =
           Inr (zip (normalize_keys (left_on m)) (normalize_keys (right_on m)))"
        by (simp add: eq)
    qed
    from 1 2 3 4 show "(length (normalize_keys (left_on m)) \<noteq> length (normalize_keys (right_on m)) \<longrightarrow>
         derive_key_pairs rank m = Inl KeyLengthMismatch) \<and>
      (length (normalize_keys (left_on m)) = length (normalize_keys (right_on m)) \<and>
       \<not> set (normalize_keys (left_on m)) \<subseteq> set (left_names m) \<longrightarrow>
         (\<exists>k \<in> set (normalize_keys (left_on m)). k \<notin> set (left_names m) \<and>
            derive_key_pairs rank m = Inl (LeftKeyNotFound k))) \<and>
      (length (normalize_keys (left_on m)) = length (normalize_keys (right_on m)) \<and>
       set (normalize_keys (left_on m)) \<subseteq> set (left_names m) \<and>
       \<not> set (normalize_keys (right_on m)) \<subseteq> set (right_names m) \<longrightarrow>
         (\<exists>k \<in> set (normalize_keys (right_on m)). k \<notin> set (right_names m) \<and>
            derive_key_pairs rank m = Inl (RightKeyNotFound k))) \<and>
      (length (normalize_keys (left_on m)) = length (normalize_keys (right_on m)) \<and>
       set (normalize_keys (left_on m)) \<subseteq> set (left_names m) \<and>
       set (normalize_keys (right_on m)) \<subseteq> set (right_names m) \<longrightarrow>
         derive_key_pairs rank m =
           Inr (zip (normalize_keys (left_on m)) (normalize_keys (right_on m))))"
      by (intro conjI)
  qed
  have inferred: "on m = None \<and> normalize_keys (left_on m) = [] \<and>
      normalize_keys (right_on m) = [] \<longrightarrow>
      (\<exists>names. derive_key_pairs rank m = Inr (map (\<lambda>k. (k, k)) names) \<and> distinct names \<and>
         set names = set (left_names m) \<inter> set (right_names m))"
    using derive_key_pairs_inferred [of m rank] distinct_inferred_keys set_inferred_keys
    by blast
  from conflict on_ok on_bad lr inferred show ?thesis
    by (simp only: normalize_keys.simps) blast
qed

theorem explicit_key_resolution_witness:
  "derive_key_pairs (\<lambda>_. 0)
     \<lparr>base_frame = test_frame, other_frame = test_frame2, on = Some (Name ''col1''),
      left_on = Some (Name ''col1''), right_on = None, how = ''inner'',
      suffixes = (''_x'', ''_y'')\<rparr> = Inl ConflictingKeys \<and>
   derive_key_pairs (\<lambda>_. 0)
     \<lparr>base_frame = test_frame, other_frame = test_frame2, on = Some (Name ''col1''),
      left_on = None, right_on = None, how = ''inner'',
      suffixes = (''_x'', ''_y'')\<rparr> = Inr [(''col1'', ''col1'')] \<and>
   derive_key_pairs (\<lambda>_. 0)
     \<lparr>base_frame = test_frame, other_frame = test_frame2, on = Some (Names [''col1'', ''col2'']),
      left_on = None, right_on = None, how = ''inner'',
      suffixes = (''_x'', ''_y'')\<rparr> = Inl (MergeKeyNotInBothFrames ''col2'') \<and>
   derive_key_pairs (\<lambda>_. 0)
     \<lparr>base_frame = test_frame, other_frame = test_frame2, on = None,
      left_on = Some (Names [''col1'', ''col2'']), right_on = Some (Name ''col1''), how = ''inner'',
      suffixes = (''_x'', ''_y'')\<rparr> = Inl KeyLengthMismatch \<and>
   derive_key_pairs (\<lambda>_. 0)
     \<lparr>base_frame = test_frame, other_frame = test_frame2, on = None,
      left_on = Some (Name ''nol''), right_on = Some (Name ''col1''), how = ''inner'',
      suffixes = (''_x'', ''_y'')\<rparr> = Inl (LeftKeyNotFound ''nol'') \<and>
   derive_key_pairs (\<lambda>_. 0)
     \<lparr>base_frame = test_frame, other_frame = test_frame2, on = None,
      left_on = Some (Name ''col1''), right_on = Some (Name ''nor''), how = ''inner'',
      suffixes = (''_x'', ''_y'')\<rparr> = Inl (RightKeyNotFound ''nor'') \<and>
   derive_key_pairs (\<lambda>_. 0)
     \<lparr>base_frame = test_frame, other_frame = test_frame2, on = None,
      left_on = Some (Names [''col2'', ''col1'']), right_on = Some (Names [''pol2'', ''col1'']), how = ''inner'',
      suffixes = (''_x'', ''_y'')\<rparr> = Inr [(''col2'', ''pol2''), (''col1'', ''col1'')] \<and>
   (\<exists>names. derive_key_pairs (\<lambda>_. 0)
     \<lparr>base_frame = test_frame, other_frame = test_frame2, on = None,
      left_on = Some (Names []), right_on = Some (Names []), how = ''inner'',
      suffixes = (''_x'', ''_y'')\<rparr> = Inr (map (\<lambda>k. (k, k)) names) \<and> distinct names \<and> set names = {''col1''})"
proof -
  let ?r = "\<lambda>_::string. 0::nat"
  let ?conflict = "\<lparr>base_frame = test_frame, other_frame = test_frame2, on = Some (Name ''col1''),
      left_on = Some (Name ''col1''), right_on = None, how = ''inner'',
      suffixes = (''_x'', ''_y'')\<rparr>"
  let ?onok = "\<lparr>base_frame = test_frame, other_frame = test_frame2, on = Some (Name ''col1''),
      left_on = None, right_on = None, how = ''inner'',
      suffixes = (''_x'', ''_y'')\<rparr>"
  let ?onbad = "\<lparr>base_frame = test_frame, other_frame = test_frame2, on = Some (Names [''col1'', ''col2'']),
      left_on = None, right_on = None, how = ''inner'',
      suffixes = (''_x'', ''_y'')\<rparr>"
  let ?len = "\<lparr>base_frame = test_frame, other_frame = test_frame2, on = None,
      left_on = Some (Names [''col1'', ''col2'']), right_on = Some (Name ''col1''), how = ''inner'',
      suffixes = (''_x'', ''_y'')\<rparr>"
  let ?lbad = "\<lparr>base_frame = test_frame, other_frame = test_frame2, on = None,
      left_on = Some (Name ''nol''), right_on = Some (Name ''col1''), how = ''inner'',
      suffixes = (''_x'', ''_y'')\<rparr>"
  let ?rbad = "\<lparr>base_frame = test_frame, other_frame = test_frame2, on = None,
      left_on = Some (Name ''col1''), right_on = Some (Name ''nor''), how = ''inner'',
      suffixes = (''_x'', ''_y'')\<rparr>"
  let ?zip = "\<lparr>base_frame = test_frame, other_frame = test_frame2, on = None,
      left_on = Some (Names [''col2'', ''col1'']), right_on = Some (Names [''pol2'', ''col1'']), how = ''inner'',
      suffixes = (''_x'', ''_y'')\<rparr>"
  let ?empty = "\<lparr>base_frame = test_frame, other_frame = test_frame2, on = None,
      left_on = Some (Names []), right_on = Some (Names []), how = ''inner'',
      suffixes = (''_x'', ''_y'')\<rparr>"
  note defs = left_names_def right_names_def test_inputs
  have 1: "derive_key_pairs ?r ?conflict = Inl ConflictingKeys"
    using explicit_key_resolution [where m = ?conflict and rank = ?r] by simp
  have 2: "derive_key_pairs ?r ?onok = Inr [(''col1'', ''col1'')]"
    using explicit_key_resolution [where m = ?onok and rank = ?r] by (simp add: defs)
  have 3: "derive_key_pairs ?r ?onbad = Inl (MergeKeyNotInBothFrames ''col2'')"
    using explicit_key_resolution [where m = ?onbad and rank = ?r] by (simp add: defs)
  have 4: "derive_key_pairs ?r ?len = Inl KeyLengthMismatch"
    using explicit_key_resolution [where m = ?len and rank = ?r] by (simp add: defs)
  have 5: "derive_key_pairs ?r ?lbad = Inl (LeftKeyNotFound ''nol'')"
    using explicit_key_resolution [where m = ?lbad and rank = ?r] by (simp add: defs)
  have 6: "derive_key_pairs ?r ?rbad = Inl (RightKeyNotFound ''nor'')"
    using explicit_key_resolution [where m = ?rbad and rank = ?r] by (simp add: defs)
  have 7: "derive_key_pairs ?r ?zip = Inr [(''col2'', ''pol2''), (''col1'', ''col1'')]"
    using explicit_key_resolution [where m = ?zip and rank = ?r] by (simp add: defs)
  have 8: "\<exists>names. derive_key_pairs ?r ?empty = Inr (map (\<lambda>k. (k, k)) names) \<and>
      distinct names \<and> set names = {''col1''}"
    using explicit_key_resolution [where m = ?empty and rank = ?r] by (simp add: defs)
  from 1 2 3 4 5 6 7 8 show ?thesis by (intro conjI)
qed

text \<open>
  C3, at the merge of the validation test: the frame with the columns \<open>col1\<close> to \<open>col5\<close>
  merged with the frame with the columns \<open>pol1\<close>, \<open>pol2\<close>, \<open>pol3\<close>, without \<open>on\<close>,
  \<open>left_on\<close> or \<open>right_on\<close>. The frames share no column name. The key resolution returns
  the empty list of pairs and no error, the condition is the literal \<open>True\<close>, and the
  validation succeeds; the test expects the error that no merge keys were resolved.
\<close>

theorem no_common_columns_resolve_to_no_keys:
  "derive_key_pairs rank
     \<lparr>base_frame = test_frame, other_frame = test_frame_pol, on = None,
      left_on = None, right_on = None, how = ''inner'', suffixes = (''_x'', ''_y'')\<rparr> = Inr [] \<and>
   build_condition supported rank
     \<lparr>base_frame = test_frame, other_frame = test_frame_pol, on = None,
      left_on = None, right_on = None, how = ''inner'', suffixes = (''_x'', ''_y'')\<rparr> = Inr (BooleanLiteral True) \<and>
   validate rank
     \<lparr>base_frame = test_frame, other_frame = test_frame_pol, on = None,
      left_on = None, right_on = None, how = ''inner'', suffixes = (''_x'', ''_y'')\<rparr> = Inr True"
  by (simp add: derive_key_pairs_def build_condition_def validate_def join_type_def
        inferred_keys_def lower_examples test_inputs Let_def)

text \<open>
  C5, at the merge with suffixes of the test suite: the frame with the columns \<open>col1\<close>,
  \<open>pol2\<close>, \<open>pol3\<close> merged with another frame with the same columns, on \<open>col1\<close> and
  \<open>pol2\<close>, with the suffixes \<open>_left\<close> and \<open>_right\<close>. The keys resolve and \<open>pol3\<close> is in
  the overlap, so the composition the claim describes has the columns \<open>col1\<close>, \<open>pol2\<close>,
  \<open>pol3_left\<close>, \<open>pol3_right\<close>, which are the columns the test expects. The function
  builds no renamed column: it raises at the first column of the overlap, for the columns
  and for the relational plan alike.
\<close>

theorem overlapping_column_is_not_renamed:
  "derive_key_pairs rank
     \<lparr>base_frame = test_frame2,
      other_frame = table_frame 4 ''test_schema.test_table_3'' test_columns2,
      on = Some (Names [''col1'', ''pol2'']), left_on = None, right_on = None, how = ''outer'',
      suffixes = (''_left'', ''_right'')\<rparr> = Inr [(''col1'', ''col1''), (''pol2'', ''pol2'')] \<and>
   map col_name (spec_output_schema test_columns2 test_columns2
     [(''col1'', ''col1''), (''pol2'', ''pol2'')] (''_left'', ''_right'')) =
     [''col1'', ''pol2'', ''pol3_left'', ''pol3_right''] \<and>
   calculate_columns rank
     \<lparr>base_frame = test_frame2,
      other_frame = table_frame 4 ''test_schema.test_table_3'' test_columns2,
      on = Some (Names [''col1'', ''pol2'']), left_on = None, right_on = None, how = ''outer'',
      suffixes = (''_left'', ''_right'')\<rparr> = Inl AbstractColumnClass \<and>
   to_sql test_sql_config test_supported rank
     \<lparr>base_frame = test_frame2,
      other_frame = table_frame 4 ''test_schema.test_table_3'' test_columns2,
      on = Some (Names [''col1'', ''pol2'']), left_on = None, right_on = None, how = ''outer'',
      suffixes = (''_left'', ''_right'')\<rparr> = Inl AbstractColumnClass"
proof -
  let ?m = "\<lparr>base_frame = test_frame2,
      other_frame = table_frame 4 ''test_schema.test_table_3'' test_columns2,
      on = Some (Names [''col1'', ''pol2'']), left_on = None, right_on = None, how = ''outer'',
      suffixes = (''_left'', ''_right'')\<rparr>"
  have keys: "derive_key_pairs rank ?m = Inr [(''col1'', ''col1''), (''pol2'', ''pol2'')]"
    by (simp add: derive_key_pairs_def not_in_def test_inputs)
  have schema: "map col_name (spec_output_schema test_columns2 test_columns2
     [(''col1'', ''col1''), (''pol2'', ''pol2'')] (''_left'', ''_right'')) =
     [''col1'', ''pol2'', ''pol3_left'', ''pol3_right'']"
    by (simp add: spec_output_schema_def spec_rename_def spec_overlap_def
          spec_same_name_keys_def test_columns2_def)
  have cols: "calculate_columns rank ?m = Inl AbstractColumnClass"
    unfolding calculate_columns_def keys
    by (simp add: overlapping_def left_keys_same_name_def TdsColumn_def test_inputs)
  have cond: "build_condition test_supported rank ?m =
      Inr (And (Equals (RowColumn ''left'' ''col1'') (RowColumn ''right'' ''col1''))
               (Equals (RowColumn ''left'' ''pol2'') (RowColumn ''right'' ''pol2'')))"
    unfolding build_condition_def keys
    by (simp add: row_getitem_def test_inputs)
  have plan: "to_sql test_sql_config test_supported rank ?m = Inl AbstractColumnClass"
    by (simp add: to_sql_def cond cols Let_def)
  from keys schema cols plan show ?thesis by (intro conjI)
qed

text \<open>
  C6, at a collision of suffixed names: the base frame has the columns \<open>col1\<close>, \<open>col2\<close>
  and \<open>col2_x\<close>, the other frame \<open>col1\<close> and \<open>col2\<close>, the key is \<open>col1\<close> and the suffixes
  are \<open>_x\<close> and \<open>_y\<close>. The composition the claim describes has the names \<open>col1\<close>,
  \<open>col2_x\<close>, \<open>col2_x\<close>, \<open>col2_y\<close>, two of them equal, so the claim gives the
  duplicate-column error. The function raises before it reaches the check for duplicates,
  while it builds the renamed \<open>col2\<close>, with the error of the abstract column class.
\<close>

theorem suffix_collision_raises_before_duplicate_check:
  "map col_name (spec_output_schema
     [\<lparr>col_name = ''col1'', col_type = ''Integer''\<rparr>,
      \<lparr>col_name = ''col2'', col_type = ''Float''\<rparr>,
      \<lparr>col_name = ''col2_x'', col_type = ''Float''\<rparr>]
     [\<lparr>col_name = ''col1'', col_type = ''Integer''\<rparr>,
      \<lparr>col_name = ''col2'', col_type = ''Float''\<rparr>]
     [(''col1'', ''col1'')] (''_x'', ''_y'')) = [''col1'', ''col2_x'', ''col2_x'', ''col2_y''] \<and>
   derive_key_pairs rank
     \<lparr>base_frame = table_frame 1 ''test_schema.test_table''
        [\<lparr>col_name = ''col1'', col_type = ''Integer''\<rparr>,
         \<lparr>col_name = ''col2'', col_type = ''Float''\<rparr>,
         \<lparr>col_name = ''col2_x'', col_type = ''Float''\<rparr>],
      other_frame = table_frame 2 ''test_schema.test_table_2''
        [\<lparr>col_name = ''col1'', col_type = ''Integer''\<rparr>,
         \<lparr>col_name = ''col2'', col_type = ''Float''\<rparr>],
      on = Some (Name ''col1''), left_on = None, right_on = None, how = ''inner'',
      suffixes = (''_x'', ''_y'')\<rparr> = Inr [(''col1'', ''col1'')] \<and>
   calculate_columns rank
     \<lparr>base_frame = table_frame 1 ''test_schema.test_table''
        [\<lparr>col_name = ''col1'', col_type = ''Integer''\<rparr>,
         \<lparr>col_name = ''col2'', col_type = ''Float''\<rparr>,
         \<lparr>col_name = ''col2_x'', col_type = ''Float''\<rparr>],
      other_frame = table_frame 2 ''test_schema.test_table_2''
        [\<lparr>col_name = ''col1'', col_type = ''Integer''\<rparr>,
         \<lparr>col_name = ''col2'', col_type = ''Float''\<rparr>],
      on = Some (Name ''col1''), left_on = None, right_on = None, how = ''inner'',
      suffixes = (''_x'', ''_y'')\<rparr> = Inl AbstractColumnClass \<and>
   calculate_columns rank
     \<lparr>base_frame = table_frame 1 ''test_schema.test_table''
        [\<lparr>col_name = ''col1'', col_type = ''Integer''\<rparr>,
         \<lparr>col_name = ''col2'', col_type = ''Float''\<rparr>,
         \<lparr>col_name = ''col2_x'', col_type = ''Float''\<rparr>],
      other_frame = table_frame 2 ''test_schema.test_table_2''
        [\<lparr>col_name = ''col1'', col_type = ''Integer''\<rparr>,
         \<lparr>col_name = ''col2'', col_type = ''Float''\<rparr>],
      on = Some (Name ''col1''), left_on = None, right_on = None, how = ''inner'',
      suffixes = (''_x'', ''_y'')\<rparr> \<noteq> Inl DuplicateColumns"
proof -
  let ?m = "\<lparr>base_frame = table_frame 1 ''test_schema.test_table''
        [\<lparr>col_name = ''col1'', col_type = ''Integer''\<rparr>,
         \<lparr>col_name = ''col2'', col_type = ''Float''\<rparr>,
         \<lparr>col_name = ''col2_x'', col_type = ''Float''\<rparr>],
      other_frame = table_frame 2 ''test_schema.test_table_2''
        [\<lparr>col_name = ''col1'', col_type = ''Integer''\<rparr>,
         \<lparr>col_name = ''col2'', col_type = ''Float''\<rparr>],
      on = Some (Name ''col1''), left_on = None, right_on = None, how = ''inner'',
      suffixes = (''_x'', ''_y'')\<rparr>"
  have schema: "map col_name (spec_output_schema
     [\<lparr>col_name = ''col1'', col_type = ''Integer''\<rparr>,
      \<lparr>col_name = ''col2'', col_type = ''Float''\<rparr>,
      \<lparr>col_name = ''col2_x'', col_type = ''Float''\<rparr>]
     [\<lparr>col_name = ''col1'', col_type = ''Integer''\<rparr>,
      \<lparr>col_name = ''col2'', col_type = ''Float''\<rparr>]
     [(''col1'', ''col1'')] (''_x'', ''_y'')) = [''col1'', ''col2_x'', ''col2_x'', ''col2_y'']"
    by (simp add: spec_output_schema_def spec_rename_def spec_overlap_def
          spec_same_name_keys_def)
  have keys: "derive_key_pairs rank ?m = Inr [(''col1'', ''col1'')]"
    by (simp add: derive_key_pairs_def not_in_def table_frame_def)
  have cols: "calculate_columns rank ?m = Inl AbstractColumnClass"
    unfolding calculate_columns_def keys
    by (simp add: overlapping_def left_keys_same_name_def TdsColumn_def table_frame_def)
  from schema keys cols show ?thesis by simp
qed

text \<open>
  C9. The relational plan is returned exactly when the key resolution, the accesses to the
  key columns, the composition of the columns and the resolution of the join kind succeed.
  The plan returned is then the subquery, aliased \<open>root\<close>, of the join with its select
  list: the compiled queries of the two frames as subqueries aliased \<open>left\<close> and \<open>right\<close>,
  joined with the resolved kind, the criterion being the key-equality predicate, which is
  the literal \<open>True\<close> for no key pair and the conjunction, from left to right, of the
  equalities of the pairs otherwise.
\<close>

theorem relational_plan_shape:
  "(to_sql config supported rank m = Inr plan \<longrightarrow>
      (\<exists>pairs kind. derive_key_pairs rank m = Inr pairs \<and> join_type m = Inr kind \<and>
         plan =
           create_sub_query config
             (QuerySpecification
                \<lparr>selectItems =
                   spec_select_items config (columns (base_frame m)) (columns (other_frame m))
                     pairs (suffixes m),
                 distinct_flag = False\<rparr>
                [Join kind
                   (AliasedRelation
                      (TableSubquery (Query (to_sql_query_object (base_frame m)) None None []))
                      (quote_identifier config ''left'')
                      (extract_columns_for_subquery config (to_sql_query_object (base_frame m))))
                   (AliasedRelation
                      (TableSubquery (Query (to_sql_query_object (other_frame m)) None None []))
                      (quote_identifier config ''right'')
                      (extract_columns_for_subquery config
                         (to_sql_query_object (other_frame m))))
                   (JoinOn (to_sql_expression config (spec_predicate pairs)
                      [''left'' \<mapsto>
                         create_sub_query config (to_sql_query_object (base_frame m)) ''left'',
                       ''right'' \<mapsto>
                         create_sub_query config (to_sql_query_object (other_frame m))
                           ''right'']))]
                None [] None [] None None)
             ''root'')) \<and>
   ((\<exists>plan. to_sql config supported rank m = Inr plan) \<longleftrightarrow>
      (\<exists>pairs cols kind. derive_key_pairs rank m = Inr pairs \<and>
         key_access_error supported (columns (base_frame m)) (columns (other_frame m)) pairs =
           None \<and>
         calculate_columns rank m = Inr cols \<and> join_type m = Inr kind)) \<and>
   spec_predicate [] = BooleanLiteral True \<and>
   spec_predicate (p # pairs') =
     foldl (\<lambda>acc q. And acc (Equals (RowColumn ''left'' (fst q)) (RowColumn ''right'' (snd q))))
       (Equals (RowColumn ''left'' (fst p)) (RowColumn ''right'' (snd p))) pairs'"
proof -
  have shape: "to_sql config supported rank m = Inr plan \<longrightarrow>
      (\<exists>pairs kind. derive_key_pairs rank m = Inr pairs \<and> join_type m = Inr kind \<and>
         plan = create_sub_query config
                  (spec_join_with_select config m kind
                     (spec_select_items config (columns (base_frame m))
                        (columns (other_frame m)) pairs (suffixes m))
                     (spec_predicate pairs))
                  ''root'')"
  proof
    assume r: "to_sql config supported rank m = Inr plan"
    from to_sql_Inr_D [OF r] obtain pairs cols kind where
      ok: "derive_key_pairs rank m = Inr pairs"
        "key_access_error supported (columns (base_frame m)) (columns (other_frame m)) pairs =
           None"
        "calculate_columns rank m = Inr cols" "join_type m = Inr kind"
      by blast
    from to_sql_eq [OF ok] r have "plan = create_sub_query config
                  (spec_join_with_select config m kind
                     (spec_select_items config (columns (base_frame m))
                        (columns (other_frame m)) pairs (suffixes m))
                     (spec_predicate pairs))
                  ''root''"
      by simp
    with ok show "\<exists>pairs kind. derive_key_pairs rank m = Inr pairs \<and> join_type m = Inr kind \<and>
         plan = create_sub_query config
                  (spec_join_with_select config m kind
                     (spec_select_items config (columns (base_frame m))
                        (columns (other_frame m)) pairs (suffixes m))
                     (spec_predicate pairs))
                  ''root''"
      by blast
  qed
  have returns: "(\<exists>plan. to_sql config supported rank m = Inr plan) \<longleftrightarrow>
      (\<exists>pairs cols kind. derive_key_pairs rank m = Inr pairs \<and>
         key_access_error supported (columns (base_frame m)) (columns (other_frame m)) pairs =
           None \<and>
         calculate_columns rank m = Inr cols \<and> join_type m = Inr kind)"
  proof
    assume "\<exists>plan. to_sql config supported rank m = Inr plan"
    then show "\<exists>pairs cols kind. derive_key_pairs rank m = Inr pairs \<and>
         key_access_error supported (columns (base_frame m)) (columns (other_frame m)) pairs =
           None \<and>
         calculate_columns rank m = Inr cols \<and> join_type m = Inr kind"
      using to_sql_Inr_D by blast
  next
    assume "\<exists>pairs cols kind. derive_key_pairs rank m = Inr pairs \<and>
         key_access_error supported (columns (base_frame m)) (columns (other_frame m)) pairs =
           None \<and>
         calculate_columns rank m = Inr cols \<and> join_type m = Inr kind"
    then obtain pairs cols kind where
      ok: "derive_key_pairs rank m = Inr pairs"
        "key_access_error supported (columns (base_frame m)) (columns (other_frame m)) pairs =
           None"
        "calculate_columns rank m = Inr cols" "join_type m = Inr kind"
      by blast
    from to_sql_eq [OF ok] show "\<exists>plan. to_sql config supported rank m = Inr plan" by blast
  qed
  have pred: "spec_predicate (p # pairs') =
     foldl (\<lambda>acc q. And acc (Equals (RowColumn ''left'' (fst q)) (RowColumn ''right'' (snd q))))
       (Equals (RowColumn ''left'' (fst p)) (RowColumn ''right'' (snd p))) pairs'"
    by (simp add: spec_equality_def)
  from shape returns pred show ?thesis
    unfolding spec_join_with_select_def by simp
qed

theorem relational_plan_shape_witness:
  "to_sql test_sql_config test_supported (\<lambda>_. 0)
     \<lparr>base_frame = test_frame, other_frame = test_frame2, on = Some (Name ''col1''),
      left_on = None, right_on = None, how = ''inner'', suffixes = (''_x'', ''_y'')\<rparr> =
   Inr (create_sub_query test_sql_config
          (QuerySpecification
             \<lparr>selectItems =
                map (\<lambda>(side, name).
                       SingleColumn (quote_identifier test_sql_config name)
                         (QualifiedNameReference (QualifiedName
                            [quote_identifier test_sql_config side,
                             quote_identifier test_sql_config name])))
                  [(''left'', ''col1''), (''left'', ''col2''), (''left'', ''col3''),
                   (''left'', ''col4''), (''left'', ''col5''), (''right'', ''pol2''),
                   (''right'', ''pol3'')],
              distinct_flag = False\<rparr>
             [Join INNER
                (AliasedRelation
                   (TableSubquery (Query (to_sql_query_object test_frame) None None []))
                   (quote_identifier test_sql_config ''left'') [])
                (AliasedRelation
                   (TableSubquery (Query (to_sql_query_object test_frame2) None None []))
                   (quote_identifier test_sql_config ''right'') [])
                (JoinOn ())]
             None [] None [] None None)
          ''root'') \<and>
   derive_key_pairs (\<lambda>_. 0)
     \<lparr>base_frame = test_frame, other_frame = test_frame2, on = Some (Name ''col1''),
      left_on = None, right_on = None, how = ''inner'', suffixes = (''_x'', ''_y'')\<rparr> =
     Inr [(''col1'', ''col1'')] \<and>
   join_type
     \<lparr>base_frame = test_frame, other_frame = test_frame2, on = Some (Name ''col1''),
      left_on = None, right_on = None, how = ''inner'', suffixes = (''_x'', ''_y'')\<rparr> =
     Inr INNER"
proof -
  let ?m = "\<lparr>base_frame = test_frame, other_frame = test_frame2, on = Some (Name ''col1''),
      left_on = None, right_on = None, how = ''inner'', suffixes = (''_x'', ''_y'')\<rparr>"
  let ?plan = "create_sub_query test_sql_config
          (QuerySpecification
             \<lparr>selectItems =
                map (\<lambda>(side, name).
                       SingleColumn (quote_identifier test_sql_config name)
                         (QualifiedNameReference (QualifiedName
                            [quote_identifier test_sql_config side,
                             quote_identifier test_sql_config name])))
                  [(''left'', ''col1''), (''left'', ''col2''), (''left'', ''col3''),
                   (''left'', ''col4''), (''left'', ''col5''), (''right'', ''pol2''),
                   (''right'', ''pol3'')],
              distinct_flag = False\<rparr>
             [Join INNER
                (AliasedRelation
                   (TableSubquery (Query (to_sql_query_object test_frame) None None []))
                   (quote_identifier test_sql_config ''left'') [])
                (AliasedRelation
                   (TableSubquery (Query (to_sql_query_object test_frame2) None None []))
                   (quote_identifier test_sql_config ''right'') [])
                (JoinOn ())]
             None [] None [] None None)
          ''root''"
  have d: "derive_key_pairs (\<lambda>_. 0) ?m = Inr [(''col1'', ''col1'')]"
    by (simp add: derive_key_pairs_def not_in_def test_inputs)
  have j: "join_type ?m = Inr INNER"
    by (simp add: join_type_def lower_examples)
  have b: "build_condition test_supported (\<lambda>_. 0) ?m =
      Inr (Equals (RowColumn ''left'' ''col1'') (RowColumn ''right'' ''col1''))"
    unfolding build_condition_def d by (simp add: row_getitem_def test_inputs)
  have c: "calculate_columns (\<lambda>_. 0) ?m = Inr (test_columns @ tl test_columns2)"
    unfolding calculate_columns_def d
    by (simp add: overlapping_def left_keys_same_name_def test_inputs)
  have h: "to_sql test_sql_config test_supported (\<lambda>_. 0) ?m = Inr ?plan"
    unfolding to_sql_def b c d j
    by (simp add: overlapping_def left_keys_same_name_def left_select_step_def
          right_select_step_def test_inputs test_sql_config_def Let_def)
  show ?thesis
    using h d j relational_plan_shape [where config = test_sql_config
        and supported = test_supported and rank = "\<lambda>_. 0" and m = ?m and plan = ?plan]
    by simp
qed

text \<open>
  C10. Let the lower-cased \<open>how\<close> be none of the recognized spellings. Then the program
  text is rendered with \<open>JoinKind.FULL\<close> whenever the keys resolve and the key columns are
  accessible, and no error of \<^verbatim>\<open>to_pure\<close> is the unsupported-how error; the
  relational plan is never returned, and once the keys, the key columns and the output
  columns are fine its error is the unsupported-how error with the string as given; and the
  validation gives that same error once the keys resolve.
\<close>

theorem unrecognized_how_fails_only_on_plan_path:
  assumes "map_of recognized_spellings (lower (how m)) = None"
  shows "to_pure ops supported rank m config =
           (case derive_key_pairs rank m of
              Inl e \<Rightarrow> Inl e
            | Inr pairs \<Rightarrow>
                (case key_access_error supported (columns (base_frame m))
                        (columns (other_frame m)) pairs of
                   Some e \<Rightarrow> Inl e
                 | None \<Rightarrow>
                     Inr (frame_to_pure (base_frame m) config @ separator ops config 1 False @
                          ''->merge('' @ separator ops config 2 False @
                          frame_to_pure (other_frame m) (push_indent ops config 2) @ '','' @
                          separator ops config 2 True @
                          ''JoinKind.FULL,'' @ separator ops config 2 True @
                          generate_pure_lambda ops ''l, r''
                            (to_pure_expression ops (spec_predicate pairs)
                               (push_indent ops config 2)) @
                          separator ops config 1 False @ '')''))) \<and>
         (\<forall>s. to_pure ops supported rank m config \<noteq> Inl (UnsupportedHow s)) \<and>
         (\<exists>e. to_sql sql supported rank m = Inl e) \<and>
         (\<forall>pairs cols.
            derive_key_pairs rank m = Inr pairs \<and>
            key_access_error supported (columns (base_frame m)) (columns (other_frame m))
              pairs = None \<and>
            calculate_columns rank m = Inr cols \<longrightarrow>
            to_sql sql supported rank m = Inl (UnsupportedHow (how m))) \<and>
         validate rank m =
           (case derive_key_pairs rank m of
              Inl e \<Rightarrow> Inl e
            | Inr pairs \<Rightarrow> Inl (UnsupportedHow (how m)))"
proof -
  have jt: "join_type m = Inl (UnsupportedHow (how m))"
    using assms by (rule join_type_unrecognized)
  have kind: "pure_join_kind (how m) = ''FULL''"
    using assms by (rule pure_join_kind_unrecognized)
  have program: "to_pure ops supported rank m config =
           (case derive_key_pairs rank m of
              Inl e \<Rightarrow> Inl e
            | Inr pairs \<Rightarrow>
                (case key_access_error supported (columns (base_frame m))
                        (columns (other_frame m)) pairs of
                   Some e \<Rightarrow> Inl e
                 | None \<Rightarrow>
                     Inr (frame_to_pure (base_frame m) config @ separator ops config 1 False @
                          ''->merge('' @ separator ops config 2 False @
                          frame_to_pure (other_frame m) (push_indent ops config 2) @ '','' @
                          separator ops config 2 True @
                          ''JoinKind.FULL,'' @ separator ops config 2 True @
                          generate_pure_lambda ops ''l, r''
                            (to_pure_expression ops (spec_predicate pairs)
                               (push_indent ops config 2)) @
                          separator ops config 1 False @ '')'')))"
    unfolding to_pure_eq kind merge_call_text_def
    by (simp split: sum.splits option.splits)
  have no_how: "\<forall>s. to_pure ops supported rank m config \<noteq> Inl (UnsupportedHow s)"
  proof
    fix s
    show "to_pure ops supported rank m config \<noteq> Inl (UnsupportedHow s)"
      unfolding to_pure_eq
      using derive_key_pairs_not_how [of rank m s]
        key_access_error_not_how [of supported "columns (base_frame m)"
          "columns (other_frame m)" _ s]
      by (auto split: sum.splits option.splits)
  qed
  have plan: "\<exists>e. to_sql sql supported rank m = Inl e"
    using jt by (rule to_sql_join_type_error)
  have plan_how: "\<forall>pairs cols.
            derive_key_pairs rank m = Inr pairs \<and>
            key_access_error supported (columns (base_frame m)) (columns (other_frame m))
              pairs = None \<and>
            calculate_columns rank m = Inr cols \<longrightarrow>
            to_sql sql supported rank m = Inl (UnsupportedHow (how m))"
    using to_sql_unsupported [where e = "UnsupportedHow (how m)", OF _ _ _ jt] by blast
  have val: "validate rank m =
           (case derive_key_pairs rank m of
              Inl e \<Rightarrow> Inl e
            | Inr pairs \<Rightarrow> Inl (UnsupportedHow (how m)))"
    by (simp add: validate_def jt split: sum.splits)
  from program no_how plan plan_how val show ?thesis by (intro conjI)
qed

theorem unrecognized_how_fails_only_on_plan_path_witness:
  "map_of recognized_spellings (lower ''cross'') = None \<and>
   to_pure test_pure_config test_supported (\<lambda>_. 0)
     \<lparr>base_frame = test_frame, other_frame = test_frame2, on = Some (Name ''col1''),
      left_on = None, right_on = None, how = ''cross'', suffixes = (''_x'', ''_y'')\<rparr> () =
     Inr (''#Table(test_schema.test_table)#->merge(#Table(test_schema.test_table_2)#, '' @
          ''JoinKind.FULL, {l, r | $left.col1 == $right.col1})'') \<and>
   to_sql test_sql_config test_supported (\<lambda>_. 0)
     \<lparr>base_frame = test_frame, other_frame = test_frame2, on = Some (Name ''col1''),
      left_on = None, right_on = None, how = ''cross'', suffixes = (''_x'', ''_y'')\<rparr> =
     Inl (UnsupportedHow ''cross'') \<and>
   validate (\<lambda>_. 0)
     \<lparr>base_frame = test_frame, other_frame = test_frame2, on = Some (Name ''col1''),
      left_on = None, right_on = None, how = ''cross'', suffixes = (''_x'', ''_y'')\<rparr> =
     Inl (UnsupportedHow ''cross'')"
proof -
  let ?m = "\<lparr>base_frame = test_frame, other_frame = test_frame2, on = Some (Name ''col1''),
      left_on = None, right_on = None, how = ''cross'', suffixes = (''_x'', ''_y'')\<rparr>"
  have h: "map_of recognized_spellings (lower (how ?m)) = None"
    by (simp add: recognized_spellings_def lower_examples)
  have d: "derive_key_pairs (\<lambda>_. 0) ?m = Inr [(''col1'', ''col1'')]"
    by (simp add: derive_key_pairs_def not_in_def test_inputs)
  have k: "key_access_error test_supported (columns (base_frame ?m))
      (columns (other_frame ?m)) [(''col1'', ''col1'')] = None"
    by (simp add: row_getitem_def test_inputs)
  have c: "calculate_columns (\<lambda>_. 0) ?m = Inr (test_columns @ tl test_columns2)"
    unfolding calculate_columns_def d
    by (simp add: overlapping_def left_keys_same_name_def test_inputs)
  note inst = unrecognized_how_fails_only_on_plan_path [OF h, where ops = test_pure_config
      and supported = test_supported and rank = "\<lambda>_. 0" and config = "()"
      and sql = test_sql_config]
  have p: "to_pure test_pure_config test_supported (\<lambda>_. 0) ?m () =
     Inr (''#Table(test_schema.test_table)#->merge(#Table(test_schema.test_table_2)#, '' @
          ''JoinKind.FULL, {l, r | $left.col1 == $right.col1})'')"
    using inst unfolding d
    by (simp add: test_pure_config_def test_inputs row_getitem_def spec_equality_def)
  have s: "to_sql test_sql_config test_supported (\<lambda>_. 0) ?m = Inl (UnsupportedHow ''cross'')"
    using inst d k c by auto
  have v: "validate (\<lambda>_. 0) ?m = Inl (UnsupportedHow ''cross'')"
    using inst unfolding d by simp
  from h p s v show ?thesis by simp
qed

text \<open>
  C1, at the first merge of the test suite: the frame with the columns \<open>col1\<close> to \<open>col5\<close>
  merged with the frame with the columns \<open>col1\<close>, \<open>pol2\<close>, \<open>pol3\<close>, on \<open>col1\<close>, inner. The
  one key pair is same-named. The program text is the text of the base frame followed by
  one call of \<open>merge\<close> on the text of the other frame as it is, the join kind, and a lambda
  whose body is the rendering of the equality of \<open>col1\<close> of the left row and \<open>col1\<close> of the
  right row: the right column is not renamed, the lambda compares no temporary name, and
  nothing follows the call, so there is no trailing \<open>project\<close>.
\<close>

theorem program_text_same_named_key:
  "derive_key_pairs rank
     \<lparr>base_frame = test_frame, other_frame = test_frame2, on = Some (Name ''col1''),
      left_on = None, right_on = None, how = ''inner'', suffixes = (''_x'', ''_y'')\<rparr> =
     Inr [(''col1'', ''col1'')] \<and>
   to_pure ops test_supported rank
     \<lparr>base_frame = test_frame, other_frame = test_frame2, on = Some (Name ''col1''),
      left_on = None, right_on = None, how = ''inner'', suffixes = (''_x'', ''_y'')\<rparr> config =
     Inr (frame_to_pure test_frame config @ separator ops config 1 False @
          ''->merge('' @ separator ops config 2 False @
          frame_to_pure test_frame2 (push_indent ops config 2) @ '','' @
          separator ops config 2 True @
          ''JoinKind.INNER,'' @ separator ops config 2 True @
          generate_pure_lambda ops ''l, r''
            (to_pure_expression ops
               (Equals (RowColumn ''left'' ''col1'') (RowColumn ''right'' ''col1''))
               (push_indent ops config 2)) @
          separator ops config 1 False @ '')'') \<and>
   to_pure test_pure_config test_supported rank
     \<lparr>base_frame = test_frame, other_frame = test_frame2, on = Some (Name ''col1''),
      left_on = None, right_on = None, how = ''inner'', suffixes = (''_x'', ''_y'')\<rparr> () =
     Inr (''#Table(test_schema.test_table)#->merge(#Table(test_schema.test_table_2)#, '' @
          ''JoinKind.INNER, {l, r | $left.col1 == $right.col1})'')"
proof -
  let ?m = "\<lparr>base_frame = test_frame, other_frame = test_frame2, on = Some (Name ''col1''),
      left_on = None, right_on = None, how = ''inner'', suffixes = (''_x'', ''_y'')\<rparr>"
  have d: "derive_key_pairs rank ?m = Inr [(''col1'', ''col1'')]"
    by (simp add: derive_key_pairs_def not_in_def test_inputs)
  have b: "build_condition test_supported rank ?m =
      Inr (Equals (RowColumn ''left'' ''col1'') (RowColumn ''right'' ''col1''))"
    unfolding build_condition_def d by (simp add: row_getitem_def test_inputs)
  have k: "pure_join_kind (how ?m) = ''INNER''"
    by (simp add: pure_join_kind_def lower_examples)
  have general: "to_pure ops test_supported rank ?m config =
     Inr (frame_to_pure test_frame config @ separator ops config 1 False @
          ''->merge('' @ separator ops config 2 False @
          frame_to_pure test_frame2 (push_indent ops config 2) @ '','' @
          separator ops config 2 True @
          ''JoinKind.INNER,'' @ separator ops config 2 True @
          generate_pure_lambda ops ''l, r''
            (to_pure_expression ops
               (Equals (RowColumn ''left'' ''col1'') (RowColumn ''right'' ''col1''))
               (push_indent ops config 2)) @
          separator ops config 1 False @ '')'')"
    for ops :: "unit pure_config" and config
    unfolding to_pure_def b k by (simp add: Let_def)
  have concrete: "to_pure test_pure_config test_supported rank ?m () =
     Inr (''#Table(test_schema.test_table)#->merge(#Table(test_schema.test_table_2)#, '' @
          ''JoinKind.INNER, {l, r | $left.col1 == $right.col1})'')"
    unfolding general by (simp add: test_pure_config_def test_inputs)
  from d general concrete show ?thesis by (intro conjI)
qed

text \<open>
  C2, at the same merge. The columns after the merge are \<open>col1\<close> to \<open>col5\<close>, \<open>pol2\<close>,
  \<open>pol3\<close>, and the select list of the relational plan has exactly these names, quoted, in
  this order. The program text is a single call of \<open>merge\<close> on the texts of the two frames
  as they are, with no rename of the right \<open>col1\<close> and no projection after the call; a join
  of the two frames keeps the columns of both, eight of them with \<open>col1\<close> twice, and not
  the seven of the output schema.
\<close>

theorem schema_plan_program_columns:
  "map col_name (columns test_frame) @ map col_name (columns test_frame2) =
     [''col1'', ''col2'', ''col3'', ''col4'', ''col5'', ''col1'', ''pol2'', ''pol3''] \<and>
   (case calculate_columns rank
      \<lparr>base_frame = test_frame, other_frame = test_frame2, on = Some (Name ''col1''),
       left_on = None, right_on = None, how = ''inner'', suffixes = (''_x'', ''_y'')\<rparr> of
      Inl e \<Rightarrow> []
    | Inr cols \<Rightarrow> map col_name cols) =
     [''col1'', ''col2'', ''col3'', ''col4'', ''col5'', ''pol2'', ''pol3''] \<and>
   (case to_sql test_sql_config test_supported rank
      \<lparr>base_frame = test_frame, other_frame = test_frame2, on = Some (Name ''col1''),
       left_on = None, right_on = None, how = ''inner'', suffixes = (''_x'', ''_y'')\<rparr> of
      Inl e \<Rightarrow> []
    | Inr plan \<Rightarrow> map item_alias (selectItems (qs_select plan))) =
     map (quote_identifier test_sql_config)
       [''col1'', ''col2'', ''col3'', ''col4'', ''col5'', ''pol2'', ''pol3''] \<and>
   to_pure test_pure_config test_supported rank
     \<lparr>base_frame = test_frame, other_frame = test_frame2, on = Some (Name ''col1''),
      left_on = None, right_on = None, how = ''inner'', suffixes = (''_x'', ''_y'')\<rparr> () =
     Inr (frame_to_pure test_frame () @ ''->merge('' @ frame_to_pure test_frame2 () @
          '', JoinKind.INNER, {l, r | $left.col1 == $right.col1})'')"
proof -
  let ?m = "\<lparr>base_frame = test_frame, other_frame = test_frame2, on = Some (Name ''col1''),
      left_on = None, right_on = None, how = ''inner'', suffixes = (''_x'', ''_y'')\<rparr>"
  have both: "map col_name (columns test_frame) @ map col_name (columns test_frame2) =
     [''col1'', ''col2'', ''col3'', ''col4'', ''col5'', ''col1'', ''pol2'', ''pol3'']"
    by (simp add: test_inputs)
  have d: "derive_key_pairs rank ?m = Inr [(''col1'', ''col1'')]"
    by (simp add: derive_key_pairs_def not_in_def test_inputs)
  have j: "join_type ?m = Inr INNER"
    by (simp add: join_type_def lower_examples)
  have b: "build_condition test_supported rank ?m =
      Inr (Equals (RowColumn ''left'' ''col1'') (RowColumn ''right'' ''col1''))"
    unfolding build_condition_def d by (simp add: row_getitem_def test_inputs)
  have c: "calculate_columns rank ?m = Inr (test_columns @ tl test_columns2)"
    unfolding calculate_columns_def d
    by (simp add: overlapping_def left_keys_same_name_def test_inputs)
  have schema: "(case calculate_columns rank ?m of Inl e \<Rightarrow> [] | Inr cols \<Rightarrow> map col_name cols) =
     [''col1'', ''col2'', ''col3'', ''col4'', ''col5'', ''pol2'', ''pol3'']"
    unfolding c by (simp add: test_inputs)
  have plan: "(case to_sql test_sql_config test_supported rank ?m of
      Inl e \<Rightarrow> []
    | Inr plan \<Rightarrow> map item_alias (selectItems (qs_select plan))) =
     map (quote_identifier test_sql_config)
       [''col1'', ''col2'', ''col3'', ''col4'', ''col5'', ''pol2'', ''pol3'']"
    unfolding to_sql_def b c d j
    by (simp add: overlapping_def left_keys_same_name_def left_select_step_def
          right_select_step_def test_inputs test_sql_config_def Let_def)
  have k: "pure_join_kind (how ?m) = ''INNER''"
    by (simp add: pure_join_kind_def lower_examples)
  have program: "to_pure test_pure_config test_supported rank ?m () =
     Inr (frame_to_pure test_frame () @ ''->merge('' @ frame_to_pure test_frame2 () @
          '', JoinKind.INNER, {l, r | $left.col1 == $right.col1})'')"
    unfolding to_pure_def b k by (simp add: Let_def test_pure_config_def test_inputs)
  from both schema plan program show ?thesis by (intro conjI)
qed

text \<open>
  C4, at the merge of a frame with itself of the test suite: the frame with the columns
  \<open>col1\<close> to \<open>col5\<close> as the base frame and as the other frame, with no keys, inner. The
  constructor stores the two frames without comparing them, for any frame and any other
  arguments. At the frame of the test the validation succeeds, the columns after the merge
  are computed, and the relational plan and the program text are built: no step raises for
  the base frame being the other frame.
\<close>

theorem merging_a_frame_with_itself_is_accepted:
  "init f f on_arg left_on_arg right_on_arg how_arg suffixes_arg =
     Inr \<lparr>base_frame = f, other_frame = f, on = on_arg, left_on = left_on_arg,
          right_on = right_on_arg, how = how_arg, suffixes = suffixes_arg\<rparr> \<and>
   init test_frame test_frame None None None ''inner'' (''_x'', ''_y'') =
     Inr \<lparr>base_frame = test_frame, other_frame = test_frame, on = None, left_on = None,
          right_on = None, how = ''inner'', suffixes = (''_x'', ''_y'')\<rparr> \<and>
   validate rank
     \<lparr>base_frame = test_frame, other_frame = test_frame, on = None, left_on = None,
      right_on = None, how = ''inner'', suffixes = (''_x'', ''_y'')\<rparr> = Inr True \<and>
   calculate_columns rank
     \<lparr>base_frame = test_frame, other_frame = test_frame, on = None, left_on = None,
      right_on = None, how = ''inner'', suffixes = (''_x'', ''_y'')\<rparr> = Inr test_columns \<and>
   (\<exists>plan. to_sql test_sql_config test_supported rank
      \<lparr>base_frame = test_frame, other_frame = test_frame, on = None, left_on = None,
       right_on = None, how = ''inner'', suffixes = (''_x'', ''_y'')\<rparr> = Inr plan) \<and>
   (\<exists>program. to_pure test_pure_config test_supported rank
      \<lparr>base_frame = test_frame, other_frame = test_frame, on = None, left_on = None,
       right_on = None, how = ''inner'', suffixes = (''_x'', ''_y'')\<rparr> () = Inr program)"
proof -
  let ?m = "\<lparr>base_frame = test_frame, other_frame = test_frame, on = None, left_on = None,
      right_on = None, how = ''inner'', suffixes = (''_x'', ''_y'')\<rparr>"
  let ?keys = "inferred_keys rank (left_names ?m) (right_names ?m)"
  let ?pairs = "map (\<lambda>k. (k, k)) ?keys"
  have d: "derive_key_pairs rank ?m = Inr ?pairs"
    by (rule derive_key_pairs_inferred) simp_all
  have names: "set ?keys = col_name ` set test_columns"
    by (simp add: set_inferred_keys left_names_def right_names_def test_frame_def
          table_frame_def)
  have j: "join_type ?m = Inr INNER"
    by (simp add: join_type_def lower_examples)
  have v: "validate rank ?m = Inr True"
    by (simp add: validate_eq [OF d] j)
  have same: "spec_same_name_keys ?pairs = col_name ` set test_columns"
    using names by (auto simp: spec_same_name_keys_def)
  have ovl: "spec_overlap (columns (base_frame ?m)) (columns (other_frame ?m)) ?pairs = {}"
    unfolding spec_overlap_def same by (simp add: test_frame_def table_frame_def)
  have schema: "spec_output_schema (columns (base_frame ?m)) (columns (other_frame ?m)) ?pairs
      (suffixes ?m) = test_columns"
    unfolding spec_output_schema_no_overlap [OF ovl] same
    by (simp add: test_frame_def table_frame_def)
  have c: "calculate_columns rank ?m = Inr test_columns"
    unfolding calculate_columns_eq [OF d] schema using ovl
    by (simp add: test_columns_def)
  have k: "key_access_error test_supported (columns (base_frame ?m))
      (columns (other_frame ?m)) ?pairs = None"
  proof (rule key_access_error_supported)
    show "set (map fst ?pairs) \<subseteq> col_name ` set (columns (base_frame ?m))"
      using names by (simp add: o_def test_frame_def table_frame_def)
    show "set (map snd ?pairs) \<subseteq> col_name ` set (columns (other_frame ?m))"
      using names by (simp add: o_def test_frame_def table_frame_def)
    show "\<forall>c \<in> set (columns (base_frame ?m)) \<union> set (columns (other_frame ?m)).
        test_supported (col_type c)"
      by (simp add: test_inputs)
  qed
  have plan: "\<exists>plan. to_sql test_sql_config test_supported rank ?m = Inr plan"
    using to_sql_eq [OF d k c j] by blast
  have program: "\<exists>program. to_pure test_pure_config test_supported rank ?m () = Inr program"
    using k by (simp add: to_pure_eq d)
  have ctor: "init f f on_arg left_on_arg right_on_arg how_arg suffixes_arg =
     Inr \<lparr>base_frame = f, other_frame = f, on = on_arg, left_on = left_on_arg,
          right_on = right_on_arg, how = how_arg, suffixes = suffixes_arg\<rparr>"
    by (simp add: init_def)
  have ctor_test: "init test_frame test_frame None None None ''inner'' (''_x'', ''_y'') =
     Inr \<lparr>base_frame = test_frame, other_frame = test_frame, on = None, left_on = None,
          right_on = None, how = ''inner'', suffixes = (''_x'', ''_y'')\<rparr>"
    by (simp add: init_def)
  from ctor ctor_test v c plan program show ?thesis by (intro conjI)
qed

end
